theory Spec2Isabelle
  imports Main "HOL-Library.Sublist"
begin

section \<open>Python values\<close>

text \<open>
  The module \<^verbatim>\<open>cloudinary/api.py\<close> passes keyword options, URI segments, request
  parameters and decoded JSON bodies around as ordinary Python objects. They are modelled
  by one datatype. A dictionary with string keys is an association list read with
  \<open>map_of\<close> (the first entry of a key is the one that counts); floating point numbers
  are left out.
\<close>

datatype pyval =
    PNone
  | PBool bool
  | PInt int
  | PStr string
  | PList "pyval list"
  | PDict "(string \<times> pyval) list"

type_synonym pydict = "(string \<times> pyval) list"

text \<open>Truth value of an object, as \<^verbatim>\<open>if x\<close>, \<^verbatim>\<open>not x\<close> and \<^verbatim>\<open>x or y\<close> test it.\<close>

fun truthy :: "pyval \<Rightarrow> bool" where
  "truthy PNone = False"
| "truthy (PBool b) = b"
| "truthy (PInt i) = (i \<noteq> 0)"
| "truthy (PStr s) = (s \<noteq> [])"
| "truthy (PList xs) = (xs \<noteq> [])"
| "truthy (PDict kvs) = (kvs \<noteq> [])"

subsection \<open>Exceptions\<close>

text \<open>
  The classes of lines 12 to 19, with the built-in \<^verbatim>\<open>Exception\<close> they derive from.
\<close>

datatype exc_class =
    Exception
  | Error
  | NotFound
  | NotAllowed
  | AlreadyExists
  | RateLimited
  | BadRequest
  | GeneralError
  | AuthorizationRequired

fun base_class :: "exc_class \<Rightarrow> exc_class option" where
  "base_class Exception = None"
| "base_class Error = Some Exception"
| "base_class c = Some Error"

definition is_subclass :: "exc_class \<Rightarrow> exc_class \<Rightarrow> bool" where
  "is_subclass c d =
     (c = d \<or> base_class c = Some d \<or>
      (case base_class c of None \<Rightarrow> False | Some b \<Rightarrow> base_class b = Some d))"

text \<open>
  An exception in flight: \<open>Raised c args\<close> is \<^verbatim>\<open>raise c(*args)\<close> as the module writes
  it; the others are raised by the interpreter and by built-in operations (a missing key,
  an operation on the wrong type, a malformed value, a missing attribute), and
  \<open>OtherError\<close> is any other exception of a library, by its name.
\<close>

datatype exc =
    Raised exc_class "string list"
  | KeyError string
  | TypeError
  | ValueError
  | AttributeError
  | OtherError string

definition EXCEPTION_CODES :: "int \<Rightarrow> exc_class option" where
  "EXCEPTION_CODES = map_of
     [(400, BadRequest),
      (401, AuthorizationRequired),
      (403, NotAllowed),
      (404, NotFound),
      (409, AlreadyExists),
      (420, RateLimited),
      (500, GeneralError)]"

subsection \<open>Strings\<close>

text \<open>Decimal text of an integer, as \<^verbatim>\<open>str\<close>, \<^verbatim>\<open>{0}\<close> and \<^verbatim>\<open>%d\<close> print it.\<close>

fun digits :: "nat \<Rightarrow> string" where
  "digits n =
     (if n < 10 then [''0123456789'' ! n]
      else digits (n div 10) @ [''0123456789'' ! (n mod 10)])"

definition str_int :: "int \<Rightarrow> string" where
  "str_int i = (if i < 0 then CHR ''-'' # digits (nat (- i)) else digits (nat i))"

text \<open>
  \<^verbatim>\<open>str(x)\<close>, which is also what \<^verbatim>\<open>"{0}".format(x)\<close> and \<^verbatim>\<open>"%s" % x\<close> insert.
  The text of a list or dictionary is Python's \<^verbatim>\<open>repr\<close>, taken as a parameter.
\<close>

fun py_str :: "(pyval \<Rightarrow> string) \<Rightarrow> pyval \<Rightarrow> string" where
  "py_str r (PStr s) = s"
| "py_str r PNone = ''None''"
| "py_str r (PBool b) = (if b then ''True'' else ''False'')"
| "py_str r (PInt i) = str_int i"
| "py_str r v = r v"

text \<open>\<^verbatim>\<open>s.upper()\<close> on ASCII text.\<close>

definition upper_char :: "char \<Rightarrow> char" where
  "upper_char c =
     (case map_of (zip ''abcdefghijklmnopqrstuvwxyz'' ''ABCDEFGHIJKLMNOPQRSTUVWXYZ'') c of
        None \<Rightarrow> c
      | Some u \<Rightarrow> u)"

definition upper :: "string \<Rightarrow> string" where
  "upper s = map upper_char s"

text \<open>\<^verbatim>\<open>sep.join(xs)\<close>: every element has to be a string.\<close>

fun str_join :: "string \<Rightarrow> pyval list \<Rightarrow> exc + string" where
  "str_join sep [] = Inr []"
| "str_join sep [PStr s] = Inr s"
| "str_join sep (PStr s # x # xs) =
     (case str_join sep (x # xs) of Inl e \<Rightarrow> Inl e | Inr r \<Rightarrow> Inr (s @ sep @ r))"
| "str_join sep (v # xs) = Inl TypeError"

text \<open>\<^verbatim>\<open>sub in s\<close> on strings: \<open>sub\<close> occurs in \<open>s\<close> as a block.\<close>

fun occurs :: "string \<Rightarrow> string \<Rightarrow> bool" where
  "occurs sub [] = (sub = [])"
| "occurs sub (c # cs) = (prefix sub (c # cs) \<or> occurs sub cs)"

subsection \<open>Dictionaries with string keys\<close>

definition has_key :: "pydict \<Rightarrow> string \<Rightarrow> bool" where
  "has_key d k = (map_of d k \<noteq> None)"

fun dict_del :: "string \<Rightarrow> pydict \<Rightarrow> pydict" where
  "dict_del k [] = []"
| "dict_del k ((k', v) # d) = (if k' = k then dict_del k d else (k', v) # dict_del k d)"

text \<open>\<^verbatim>\<open>d.pop(k, default)\<close>: the value and the dictionary without the key.\<close>

definition dict_pop :: "pydict \<Rightarrow> string \<Rightarrow> pyval \<Rightarrow> pyval \<times> pydict" where
  "dict_pop d k dflt = (case map_of d k of None \<Rightarrow> (dflt, d) | Some v \<Rightarrow> (v, dict_del k d))"

text \<open>\<^verbatim>\<open>d[k] = v\<close>: a key keeps its place, a new key goes last.\<close>

fun dict_set :: "pydict \<Rightarrow> string \<Rightarrow> pyval \<Rightarrow> pydict" where
  "dict_set [] k v = [(k, v)]"
| "dict_set ((k', v') # d) k v =
     (if k' = k then (k, v) # dict_del k d else (k', v') # dict_set d k v)"

text \<open>The entries of a dictionary in order, each key once.\<close>

fun dict_items :: "pydict \<Rightarrow> pydict" where
  "dict_items [] = []"
| "dict_items ((k, v) # d) = (k, v) # dict_del k (dict_items d)"

text \<open>\<^verbatim>\<open>d.update(other)\<close> for two dictionaries.\<close>

definition dict_update :: "pydict \<Rightarrow> pydict \<Rightarrow> pydict" where
  "dict_update d other = fold (\<lambda>(k, v) acc. dict_set acc k v) (dict_items other) d"

text \<open>\<^verbatim>\<open>x[k]\<close> with a string \<open>k\<close>, and \<^verbatim>\<open>k in x\<close>.\<close>

fun getitem :: "pyval \<Rightarrow> string \<Rightarrow> exc + pyval" where
  "getitem (PDict d) k = (case map_of d k of None \<Rightarrow> Inl (KeyError k) | Some v \<Rightarrow> Inr v)"
| "getitem v k = Inl TypeError"

fun contains :: "pyval \<Rightarrow> string \<Rightarrow> exc + bool" where
  "contains (PDict d) k = Inr (has_key d k)"
| "contains (PList xs) k = Inr (PStr k \<in> set xs)"
| "contains (PStr s) k = Inr (occurs k s)"
| "contains v k = Inl TypeError"

text \<open>The elements a \<^verbatim>\<open>for\<close> loop or a comprehension sees.\<close>

fun iterate :: "pyval \<Rightarrow> exc + pyval list" where
  "iterate (PList xs) = Inr xs"
| "iterate (PStr s) = Inr (map (\<lambda>c. PStr [c]) s)"
| "iterate (PDict d) = Inr (map (\<lambda>(k, v). PStr k) (dict_items d))"
| "iterate v = Inl TypeError"

subsection \<open>Dictionaries with arbitrary keys\<close>

text \<open>
  The response wrapper is a dictionary that \<^verbatim>\<open>update\<close> fills from the decoded body,
  so its keys need not be strings. It is a map; \<open>True\<close> and \<open>1\<close> (and \<open>False\<close> and
  \<open>0\<close>) are the same key, lists and dictionaries are no keys at all.
\<close>

type_synonym pymap = "pyval \<Rightarrow> pyval option"

fun norm_key :: "pyval \<Rightarrow> pyval" where
  "norm_key (PBool b) = PInt (if b then 1 else 0)"
| "norm_key v = v"

fun hashable :: "pyval \<Rightarrow> bool" where
  "hashable (PList xs) = False"
| "hashable (PDict d) = False"
| "hashable v = True"

text \<open>
  \<^verbatim>\<open>d.update(seq)\<close> for a sequence that is no dictionary: every element has to be
  iterable (else TypeError) with exactly two elements (else ValueError), the key and the
  value.
\<close>

fun pair_of :: "pyval \<Rightarrow> exc + pyval \<times> pyval" where
  "pair_of (PList [k, v]) = (if hashable k then Inr (k, v) else Inl TypeError)"
| "pair_of (PList xs) = Inl ValueError"
| "pair_of (PStr [a, b]) = Inr (PStr [a], PStr [b])"
| "pair_of (PStr s) = Inl ValueError"
| "pair_of (PDict d) =
     (case dict_items d of [(a, x), (b, y)] \<Rightarrow> Inr (PStr a, PStr b) | _ \<Rightarrow> Inl ValueError)"
| "pair_of v = Inl TypeError"

fun update_pairs :: "pymap \<Rightarrow> pyval list \<Rightarrow> exc + pymap" where
  "update_pairs m [] = Inr m"
| "update_pairs m (x # xs) =
     (case pair_of x of
        Inl e \<Rightarrow> Inl e
      | Inr (k, v) \<Rightarrow> update_pairs (m(norm_key k \<mapsto> v)) xs)"

fun update_from :: "pymap \<Rightarrow> pyval \<Rightarrow> exc + pymap" where
  "update_from m (PDict d) = Inr (fold (\<lambda>(k, v) acc. acc(PStr k \<mapsto> v)) (dict_items d) m)"
| "update_from m (PList xs) = update_pairs m xs"
| "update_from m (PStr s) = update_pairs m (map (\<lambda>c. PStr [c]) s)"
| "update_from m v = Inl TypeError"

section \<open>The environment of the module\<close>

text \<open>
  \<^verbatim>\<open>cloudinary.config()\<close>: the process-wide configuration. An attribute that was never
  set reads as \<^verbatim>\<open>None\<close>.
\<close>

record config =
  cloud_name :: pyval
  api_key :: pyval
  api_secret :: pyval
  upload_prefix :: pyval

text \<open>
  The arguments of \<^verbatim>\<open>urllib3.make_headers\<close>, which stand for the headers it builds,
  and the request as \<^verbatim>\<open>_http.request\<close> receives it.
\<close>

record make_headers =
  basic_auth :: string
  user_agent :: string

record request =
  req_method :: string
  req_url :: string
  req_fields :: pydict
  req_headers :: make_headers
  req_timeout :: "pyval option"

text \<open>
  What the HTTP client hands back: the status, the raw body and the headers of the
  response (\<open>headers r name\<close> is \<^verbatim>\<open>r.headers[name]\<close>, \<open>None\<close> where that raises
  KeyError).
\<close>

record http_response =
  status :: int
  data :: string
  headers :: "string \<Rightarrow> string option"

text \<open>
  The outcome of \<^verbatim>\<open>_http.request\<close>: a response, an \<^verbatim>\<open>HTTPError\<close> (with its
  \<^verbatim>\<open>message\<close> attribute when it has one), a \<^verbatim>\<open>socket.error\<close> (with its text
  \<^verbatim>\<open>str(e)\<close>), or another exception.
\<close>

datatype outcome =
    Reply http_response
  | HTTPError "string option"
  | SocketError string
  | Fails exc

text \<open>
  Everything \<^verbatim>\<open>api.py\<close> calls and does not define: the configuration store, the
  user agent, the HTTP client with the remote service behind it, and library functions.
  \<^item> \<open>json_loads\<close> is \<^verbatim>\<open>json.loads(body.decode('utf-8'))\<close>; \<open>Inl\<close> carries the text of
    the exception it raises.
  \<^item> \<open>bytes_str\<close> is the text \<^verbatim>\<open>"%s" % body\<close> inserts for the raw body.
  \<^item> \<open>py_int\<close> is \<^verbatim>\<open>int(s)\<close> on a string, \<open>None\<close> where it raises ValueError.
  \<^item> \<open>parsedate\<close> is \<^verbatim>\<open>email.utils.parsedate\<close>: a time tuple, or \<open>None\<close>.
  \<^item> \<open>py_repr\<close> is \<^verbatim>\<open>repr\<close> on lists and dictionaries.
  \<^item> the others are the helpers of \<^verbatim>\<open>cloudinary.utils\<close> and \<^verbatim>\<open>json.dumps\<close>;
    \<open>generate_transformation_string\<close> gives element 0 of the tuple the helper returns.
\<close>

record env =
  config :: config
  get_user_agent :: string
  http_request :: "request \<Rightarrow> outcome"
  json_loads :: "string \<Rightarrow> string + pyval"
  bytes_str :: "string \<Rightarrow> string"
  py_int :: "string \<Rightarrow> int option"
  parsedate :: "string \<Rightarrow> int list option"
  py_repr :: "pyval \<Rightarrow> string"
  generate_transformation_string :: "pydict \<Rightarrow> exc + pyval"
  build_array :: "pyval \<Rightarrow> exc + pyval"
  encode_double_array :: "pyval \<Rightarrow> exc + pyval"
  encode_dict :: "pyval \<Rightarrow> exc + pyval"
  build_upload_params :: "pydict \<Rightarrow> exc + pydict"
  cleanup_params :: "pydict \<Rightarrow> exc + pydict"
  json_dumps :: "pyval \<Rightarrow> exc + string"

section \<open>The response wrapper\<close>

record Response =
  items :: pymap
  rate_limit_allowed :: int
  rate_limit_reset_at :: "int list option"
  rate_limit_remaining :: int

text \<open>\<^verbatim>\<open>int(response.headers[name])\<close>.\<close>

definition header_int :: "env \<Rightarrow> http_response \<Rightarrow> string \<Rightarrow> exc + int" where
  "header_int env response name =
     (case headers response name of
        None \<Rightarrow> Inl (KeyError name)
      | Some s \<Rightarrow> (case py_int env s of None \<Rightarrow> Inl ValueError | Some i \<Rightarrow> Inr i))"

text \<open>\<^verbatim>\<open>Response.__init__(self, result, response)\<close>, lines 33 to 38.\<close>

definition Response_init :: "env \<Rightarrow> pyval \<Rightarrow> http_response \<Rightarrow> exc + Response" where
  "Response_init env result response =
     (case update_from Map.empty result of
        Inl e \<Rightarrow> Inl e
      | Inr d \<Rightarrow>
     (case header_int env response ''x-featureratelimit-limit'' of
        Inl e \<Rightarrow> Inl e
      | Inr allowed \<Rightarrow>
     (case headers response ''x-featureratelimit-reset'' of
        None \<Rightarrow> Inl (KeyError ''x-featureratelimit-reset'')
      | Some reset \<Rightarrow>
     (case header_int env response ''x-featureratelimit-remaining'' of
        Inl e \<Rightarrow> Inl e
      | Inr remaining \<Rightarrow>
          Inr \<lparr>items = d,
               rate_limit_allowed = allowed,
               rate_limit_reset_at = parsedate env reset,
               rate_limit_remaining = remaining\<rparr>))))"

section \<open>The request dispatcher\<close>

type_synonym net = "request list"

type_synonym result = "(exc + Response) \<times> net"

text \<open>
  Lines 315 to 334 of \<^verbatim>\<open>call_api\<close>: the request is sent, a transport failure is
  turned into a GeneralError, the body is decoded, and a body with an \<^verbatim>\<open>"error"\<close>
  entry raises the class \<open>EXCEPTION_CODES\<close> has for the status (\<^verbatim>\<open>Exception\<close> when it
  has none).
\<close>

definition receive :: "env \<Rightarrow> request \<Rightarrow> exc + Response" where
  "receive env req =
     (case http_request env req of
        HTTPError m \<Rightarrow>
          (case m of
             None \<Rightarrow> Inl AttributeError
           | Some message \<Rightarrow> Inl (Raised GeneralError [''Unexpected error {0}'', message]))
      | SocketError e \<Rightarrow> Inl (Raised GeneralError [''Socket Error: '' @ e])
      | Fails e \<Rightarrow> Inl e
      | Reply response \<Rightarrow>
          (case json_loads env (data response) of
             Inl e \<Rightarrow>
               Inl (Raised GeneralError
                 [''Error parsing server response ('' @ str_int (status response) @ '') - ''
                  @ bytes_str env (data response) @ ''. Got - '' @ e])
           | Inr result \<Rightarrow>
               (case contains result ''error'' of
                  Inl e \<Rightarrow> Inl e
                | Inr True \<Rightarrow>
                    (let exception_class =
                       (case EXCEPTION_CODES (status response) of
                          Some c \<Rightarrow> c
                        | None \<Rightarrow> Exception)
                     in case getitem result ''error'' of
                          Inl e \<Rightarrow> Inl e
                        | Inr err \<Rightarrow>
                            (case getitem err ''message'' of
                               Inl e \<Rightarrow> Inl e
                             | Inr message \<Rightarrow>
                                 Inl (Raised exception_class
                                   [''Error '' @ str_int (status response) @ '' - ''
                                    @ py_str (py_repr env) message])))
                | Inr False \<Rightarrow> Response_init env result response)))"

text \<open>
  \<^verbatim>\<open>call_api(method, uri, params, **options)\<close>, lines 297 to 334. The network is the
  list of the requests sent so far; a request that is sent is added at its end. The three
  tests are those of lines 300, 302 and 304; the one of line 304 is on \<open>cloud_name\<close>, as
  the source has it.
\<close>

definition call_api :: "env \<Rightarrow> string \<Rightarrow> pyval list \<Rightarrow> pydict \<Rightarrow> pydict \<Rightarrow> net \<Rightarrow> result" where
  "call_api env method uri params options net =
     (let (p, options1) = dict_pop options ''upload_prefix'' (upload_prefix (config env));
          prefix = (if truthy p then p else PStr ''https://api.cloudinary.com'');
          (cloud_name, options2) = dict_pop options1 ''cloud_name'' (cloud_name (config env))
      in if \<not> truthy cloud_name then (Inl (Raised Exception [''Must supply cloud_name'']), net)
      else
      let (api_key, options3) = dict_pop options2 ''api_key'' (api_key (config env))
      in if \<not> truthy api_key then (Inl (Raised Exception [''Must supply api_key'']), net)
      else
      let (api_secret, options4) = dict_pop options3 ''api_secret'' (api_secret (config env))
      in if \<not> truthy cloud_name then (Inl (Raised Exception [''Must supply api_secret'']), net)
      else
      case str_join ''/'' ([prefix, PStr ''v1_1'', cloud_name] @ uri) of
        Inl e \<Rightarrow> (Inl e, net)
      | Inr api_url \<Rightarrow>
          let headers =
                \<lparr>basic_auth =
                   py_str (py_repr env) api_key @ '':'' @ py_str (py_repr env) api_secret,
                 user_agent = get_user_agent env\<rparr>;
              req = \<lparr>req_method = upper method,
                     req_url = api_url,
                     req_fields = params,
                     req_headers = headers,
                     req_timeout = map_of options4 ''timeout''\<rparr>
          in (receive env req, net @ [req]))"

text \<open>
  The call \<^verbatim>\<open>call_api(method, uri, params, **options)\<close> of the wrappers: an option
  named like one of the three positional parameters is a TypeError of the call itself.
\<close>

definition call_api_kwargs ::
  "env \<Rightarrow> string \<Rightarrow> pyval list \<Rightarrow> pydict \<Rightarrow> pydict \<Rightarrow> net \<Rightarrow> result" where
  "call_api_kwargs env method uri params options net =
     (if has_key options ''method'' \<or> has_key options ''uri'' \<or> has_key options ''params''
      then (Inl TypeError, net)
      else call_api env method uri params options net)"

section \<open>The operations\<close>

text \<open>\<^verbatim>\<open>only(source, *keys)\<close>, line 337: a dictionary comprehension over \<open>keys\<close>.\<close>

definition only :: "pydict \<Rightarrow> string list \<Rightarrow> pydict" where
  "only source keys =
     fold (\<lambda>key acc. case map_of source key of None \<Rightarrow> acc | Some v \<Rightarrow> dict_set acc key v)
       keys []"

text \<open>
  \<^verbatim>\<open>transformation_string\<close>, line 341. Any other object than a string or a dictionary
  cannot be passed with \<^verbatim>\<open>**\<close>.
\<close>

fun transformation_string :: "env \<Rightarrow> pyval \<Rightarrow> exc + pyval" where
  "transformation_string env (PStr s) = Inr (PStr s)"
| "transformation_string env (PDict d) = generate_transformation_string env d"
| "transformation_string env v = Inl TypeError"

text \<open>
  The statement \<^verbatim>\<open>if k in options: params[k] = encode(options[k])\<close> that \<^verbatim>\<open>update\<close>,
  \<^verbatim>\<open>update_transformation\<close> and the streaming profile operations repeat.
\<close>

definition forward :: "pydict \<Rightarrow> string \<Rightarrow> (pyval \<Rightarrow> exc + pyval) \<Rightarrow> pydict \<Rightarrow> exc + pydict" where
  "forward options k encode params =
     (case map_of options k of
        None \<Rightarrow> Inr params
      | Some v \<Rightarrow> (case encode v of Inl e \<Rightarrow> Inl e | Inr x \<Rightarrow> Inr (dict_set params k x)))"

text \<open>A list comprehension whose element expression can raise.\<close>

fun map_exc :: "('a \<Rightarrow> exc + 'b) \<Rightarrow> 'a list \<Rightarrow> exc + 'b list" where
  "map_exc f [] = Inr []"
| "map_exc f (x # xs) =
     (case f x of
        Inl e \<Rightarrow> Inl e
      | Inr y \<Rightarrow> (case map_exc f xs of Inl e \<Rightarrow> Inl e | Inr ys \<Rightarrow> Inr (y # ys)))"

text \<open>\<^verbatim>\<open>[(name, x) for x in xs]\<close>.\<close>

definition pairs :: "string \<Rightarrow> pyval \<Rightarrow> exc + pydict" where
  "pairs name xs = (case iterate xs of Inl e \<Rightarrow> Inl e | Inr ys \<Rightarrow> Inr (map (Pair name) ys))"

definition ping :: "env \<Rightarrow> pydict \<Rightarrow> net \<Rightarrow> result" where
  "ping env options net = call_api_kwargs env ''get'' [PStr ''ping''] [] options net"

definition usage :: "env \<Rightarrow> pydict \<Rightarrow> net \<Rightarrow> result" where
  "usage env options net = call_api_kwargs env ''get'' [PStr ''usage''] [] options net"

definition resource_types :: "env \<Rightarrow> pydict \<Rightarrow> net \<Rightarrow> result" where
  "resource_types env options net =
     call_api_kwargs env ''get'' [PStr ''resources''] [] options net"

definition resources :: "env \<Rightarrow> pydict \<Rightarrow> net \<Rightarrow> result" where
  "resources env options net =
     (let (resource_type, options) = dict_pop options ''resource_type'' (PStr ''image'');
          (upload_type, options) = dict_pop options ''type'' PNone;
          uri = [PStr ''resources'', resource_type]
                @ (if truthy upload_type then [upload_type] else []);
          params = only options
                     [''next_cursor'', ''max_results'', ''prefix'', ''tags'', ''context'',
                      ''moderations'', ''direction'', ''start_at'']
      in call_api_kwargs env ''get'' uri params options net)"

definition resources_by_tag :: "env \<Rightarrow> pyval \<Rightarrow> pydict \<Rightarrow> net \<Rightarrow> result" where
  "resources_by_tag env tag options net =
     (let (resource_type, options) = dict_pop options ''resource_type'' (PStr ''image'');
          uri = [PStr ''resources'', resource_type, PStr ''tags'', tag];
          params = only options
                     [''next_cursor'', ''max_results'', ''tags'', ''context'', ''moderations'',
                      ''direction'']
      in call_api_kwargs env ''get'' uri params options net)"

definition resources_by_moderation ::
  "env \<Rightarrow> pyval \<Rightarrow> pyval \<Rightarrow> pydict \<Rightarrow> net \<Rightarrow> result" where
  "resources_by_moderation env kind status' options net =
     (let (resource_type, options) = dict_pop options ''resource_type'' (PStr ''image'');
          uri = [PStr ''resources'', resource_type, PStr ''moderations'', kind, status'];
          params = only options
                     [''next_cursor'', ''max_results'', ''tags'', ''context'', ''moderations'',
                      ''direction'']
      in call_api_kwargs env ''get'' uri params options net)"

definition resources_by_ids :: "env \<Rightarrow> pyval \<Rightarrow> pydict \<Rightarrow> net \<Rightarrow> result" where
  "resources_by_ids env public_ids options net =
     (let (resource_type, options) = dict_pop options ''resource_type'' (PStr ''image'');
          (upload_type, options) = dict_pop options ''type'' (PStr ''upload'');
          uri = [PStr ''resources'', resource_type, upload_type]
      in case pairs ''public_ids[]'' public_ids of
           Inl e \<Rightarrow> (Inl e, net)
         | Inr params \<Rightarrow>
             let optional = only options [''tags'', ''moderations'', ''context'']
             in call_api_kwargs env ''get'' uri (params @ optional) options net)"

definition resource :: "env \<Rightarrow> pyval \<Rightarrow> pydict \<Rightarrow> net \<Rightarrow> result" where
  "resource env public_id options net =
     (let (resource_type, options) = dict_pop options ''resource_type'' (PStr ''image'');
          (upload_type, options) = dict_pop options ''type'' (PStr ''upload'');
          uri = [PStr ''resources'', resource_type, upload_type, public_id];
          params = only options
                     [''exif'', ''faces'', ''colors'', ''image_metadata'', ''pages'', ''phash'',
                      ''coordinates'', ''max_results'']
      in call_api_kwargs env ''get'' uri params options net)"

text \<open>
  \<^verbatim>\<open>update\<close>, line 96. The encoders are those of \<^verbatim>\<open>cloudinary.utils\<close>;
  \<open>join_tags\<close> is \<^verbatim>\<open>",".join(utils.build_array(v))\<close>.
\<close>

definition join_tags :: "env \<Rightarrow> pyval \<Rightarrow> exc + pyval" where
  "join_tags env v =
     (case build_array env v of
        Inl e \<Rightarrow> Inl e
      | Inr a \<Rightarrow>
     (case iterate a of
        Inl e \<Rightarrow> Inl e
      | Inr xs \<Rightarrow> (case str_join '','' xs of Inl e \<Rightarrow> Inl e | Inr s \<Rightarrow> Inr (PStr s))))"

definition update_params :: "env \<Rightarrow> pydict \<Rightarrow> exc + pydict" where
  "update_params env options =
     (let params = only options
                     [''moderation_status'', ''raw_convert'', ''ocr'', ''categorization'',
                      ''detection'', ''similarity_search'', ''background_removal'']
      in case forward options ''tags'' (join_tags env) params of
           Inl e \<Rightarrow> Inl e
         | Inr params \<Rightarrow>
        (case forward options ''face_coordinates'' (encode_double_array env) params of
           Inl e \<Rightarrow> Inl e
         | Inr params \<Rightarrow>
        (case forward options ''custom_coordinates'' (encode_double_array env) params of
           Inl e \<Rightarrow> Inl e
         | Inr params \<Rightarrow>
        (case forward options ''context'' (encode_dict env) params of
           Inl e \<Rightarrow> Inl e
         | Inr params \<Rightarrow>
             forward options ''auto_tagging''
               (\<lambda>v. Inr (PStr (py_str (py_repr env) v))) params))))"

definition update :: "env \<Rightarrow> pyval \<Rightarrow> pydict \<Rightarrow> net \<Rightarrow> result" where
  "update env public_id options net =
     (let (resource_type, options) = dict_pop options ''resource_type'' (PStr ''image'');
          (upload_type, options) = dict_pop options ''type'' (PStr ''upload'');
          uri = [PStr ''resources'', resource_type, upload_type, public_id]
      in case update_params env options of
           Inl e \<Rightarrow> (Inl e, net)
         | Inr params \<Rightarrow> call_api_kwargs env ''post'' uri params options net)"

definition delete_resources :: "env \<Rightarrow> pyval \<Rightarrow> pydict \<Rightarrow> net \<Rightarrow> result" where
  "delete_resources env public_ids options net =
     (let (resource_type, options) = dict_pop options ''resource_type'' (PStr ''image'');
          (upload_type, options) = dict_pop options ''type'' (PStr ''upload'');
          uri = [PStr ''resources'', resource_type, upload_type]
      in case pairs ''public_ids[]'' public_ids of
           Inl e \<Rightarrow> (Inl e, net)
         | Inr params \<Rightarrow>
             let optional = only options [''keep_original'', ''next_cursor'', ''invalidate'']
             in call_api_kwargs env ''delete'' uri (params @ optional) options net)"

definition delete_resources_by_prefix :: "env \<Rightarrow> pyval \<Rightarrow> pydict \<Rightarrow> net \<Rightarrow> result" where
  "delete_resources_by_prefix env prefix' options net =
     (let (resource_type, options) = dict_pop options ''resource_type'' (PStr ''image'');
          (upload_type, options) = dict_pop options ''type'' (PStr ''upload'');
          uri = [PStr ''resources'', resource_type, upload_type];
          params = dict_set (only options [''keep_original'', ''next_cursor'', ''invalidate''])
                     ''prefix'' prefix'
      in call_api_kwargs env ''delete'' uri params options net)"

definition delete_all_resources :: "env \<Rightarrow> pydict \<Rightarrow> net \<Rightarrow> result" where
  "delete_all_resources env options net =
     (let (resource_type, options) = dict_pop options ''resource_type'' (PStr ''image'');
          (upload_type, options) = dict_pop options ''type'' (PStr ''upload'');
          uri = [PStr ''resources'', resource_type, upload_type];
          params = dict_set (only options [''keep_original'', ''next_cursor'', ''invalidate''])
                     ''all'' (PBool True)
      in call_api_kwargs env ''delete'' uri params options net)"

definition delete_resources_by_tag :: "env \<Rightarrow> pyval \<Rightarrow> pydict \<Rightarrow> net \<Rightarrow> result" where
  "delete_resources_by_tag env tag options net =
     (let (resource_type, options) = dict_pop options ''resource_type'' (PStr ''image'');
          uri = [PStr ''resources'', resource_type, PStr ''tags'', tag];
          params = only options [''keep_original'', ''next_cursor'', ''invalidate'']
      in call_api_kwargs env ''delete'' uri params options net)"

definition delete_derived_resources :: "env \<Rightarrow> pyval \<Rightarrow> pydict \<Rightarrow> net \<Rightarrow> result" where
  "delete_derived_resources env derived_resource_ids options net =
     (let uri = [PStr ''derived_resources'']
      in case pairs ''derived_resource_ids[]'' derived_resource_ids of
           Inl e \<Rightarrow> (Inl e, net)
         | Inr params \<Rightarrow> call_api_kwargs env ''delete'' uri params options net)"

definition tags :: "env \<Rightarrow> pydict \<Rightarrow> net \<Rightarrow> result" where
  "tags env options net =
     (let (resource_type, options) = dict_pop options ''resource_type'' (PStr ''image'');
          uri = [PStr ''tags'', resource_type]
      in call_api_kwargs env ''get'' uri
           (only options [''next_cursor'', ''max_results'', ''prefix'']) options net)"

definition transformations :: "env \<Rightarrow> pydict \<Rightarrow> net \<Rightarrow> result" where
  "transformations env options net =
     (let uri = [PStr ''transformations'']
      in call_api_kwargs env ''get'' uri
           (only options [''next_cursor'', ''max_results'']) options net)"

definition transformation :: "env \<Rightarrow> pyval \<Rightarrow> pydict \<Rightarrow> net \<Rightarrow> result" where
  "transformation env transformation' options net =
     (case transformation_string env transformation' of
        Inl e \<Rightarrow> (Inl e, net)
      | Inr ts \<Rightarrow>
          let uri = [PStr ''transformations'', ts]
          in call_api_kwargs env ''get'' uri
               (only options [''next_cursor'', ''max_results'']) options net)"

definition delete_transformation :: "env \<Rightarrow> pyval \<Rightarrow> pydict \<Rightarrow> net \<Rightarrow> result" where
  "delete_transformation env transformation' options net =
     (case transformation_string env transformation' of
        Inl e \<Rightarrow> (Inl e, net)
      | Inr ts \<Rightarrow>
          let uri = [PStr ''transformations'', ts]
          in call_api_kwargs env ''delete'' uri [] options net)"

text \<open>\<^verbatim>\<open>update_transformation\<close>, line 176.\<close>

definition update_transformation :: "env \<Rightarrow> pyval \<Rightarrow> pydict \<Rightarrow> net \<Rightarrow> result" where
  "update_transformation env transformation' options net =
     (case transformation_string env transformation' of
        Inl e \<Rightarrow> (Inl e, net)
      | Inr ts \<Rightarrow>
          let uri = [PStr ''transformations'', ts];
              updates = only options [''allowed_for_strict'']
          in (case forward options ''unsafe_update'' (transformation_string env) updates of
                Inl e \<Rightarrow> (Inl e, net)
              | Inr updates \<Rightarrow>
                  if \<not> truthy (PDict updates)
                  then (Inl (Raised Exception [''No updates given'']), net)
                  else call_api_kwargs env ''put'' uri updates options net))"

definition create_transformation :: "env \<Rightarrow> pyval \<Rightarrow> pyval \<Rightarrow> pydict \<Rightarrow> net \<Rightarrow> result" where
  "create_transformation env name definition' options net =
     (let uri = [PStr ''transformations'', name]
      in case transformation_string env definition' of
           Inl e \<Rightarrow> (Inl e, net)
         | Inr ts \<Rightarrow> call_api_kwargs env ''post'' uri [(''transformation'', ts)] options net)"

definition upload_presets :: "env \<Rightarrow> pydict \<Rightarrow> net \<Rightarrow> result" where
  "upload_presets env options net =
     (let uri = [PStr ''upload_presets'']
      in call_api_kwargs env ''get'' uri
           (only options [''next_cursor'', ''max_results'']) options net)"

definition upload_preset :: "env \<Rightarrow> pyval \<Rightarrow> pydict \<Rightarrow> net \<Rightarrow> result" where
  "upload_preset env name options net =
     (let uri = [PStr ''upload_presets'', name]
      in call_api_kwargs env ''get'' uri (only options [''max_results'']) options net)"

definition delete_upload_preset :: "env \<Rightarrow> pyval \<Rightarrow> pydict \<Rightarrow> net \<Rightarrow> result" where
  "delete_upload_preset env name options net =
     (let uri = [PStr ''upload_presets'', name]
      in call_api_kwargs env ''delete'' uri [] options net)"

text \<open>
  The two lines \<^verbatim>\<open>params = utils.build_upload_params(**options)\<close> and
  \<^verbatim>\<open>params = utils.cleanup_params(params)\<close> of the preset operations.
\<close>

definition preset_params :: "env \<Rightarrow> pydict \<Rightarrow> exc + pydict" where
  "preset_params env options =
     (case build_upload_params env options of
        Inl e \<Rightarrow> Inl e
      | Inr params \<Rightarrow> cleanup_params env params)"

definition update_upload_preset :: "env \<Rightarrow> pyval \<Rightarrow> pydict \<Rightarrow> net \<Rightarrow> result" where
  "update_upload_preset env name options net =
     (let uri = [PStr ''upload_presets'', name]
      in case preset_params env options of
           Inl e \<Rightarrow> (Inl e, net)
         | Inr params \<Rightarrow>
             let params = dict_update params (only options [''unsigned'', ''disallow_public_id''])
             in call_api_kwargs env ''put'' uri params options net)"

definition create_upload_preset :: "env \<Rightarrow> pydict \<Rightarrow> net \<Rightarrow> result" where
  "create_upload_preset env options net =
     (let uri = [PStr ''upload_presets'']
      in case preset_params env options of
           Inl e \<Rightarrow> (Inl e, net)
         | Inr params \<Rightarrow>
             let params = dict_update params
                            (only options [''unsigned'', ''disallow_public_id'', ''name''])
             in call_api_kwargs env ''post'' uri params options net)"

definition root_folders :: "env \<Rightarrow> pydict \<Rightarrow> net \<Rightarrow> result" where
  "root_folders env options net = call_api_kwargs env ''get'' [PStr ''folders''] [] options net"

definition subfolders :: "env \<Rightarrow> pyval \<Rightarrow> pydict \<Rightarrow> net \<Rightarrow> result" where
  "subfolders env of_folder_path options net =
     call_api_kwargs env ''get'' [PStr ''folders'', of_folder_path] [] options net"

definition restore :: "env \<Rightarrow> pyval \<Rightarrow> pydict \<Rightarrow> net \<Rightarrow> result" where
  "restore env public_ids options net =
     (let (resource_type, options) = dict_pop options ''resource_type'' (PStr ''image'');
          (upload_type, options) = dict_pop options ''type'' (PStr ''upload'');
          uri = [PStr ''resources'', resource_type, upload_type, PStr ''restore'']
      in case pairs ''public_ids[]'' public_ids of
           Inl e \<Rightarrow> (Inl e, net)
         | Inr params \<Rightarrow> call_api_kwargs env ''post'' uri params options net)"

definition upload_mappings :: "env \<Rightarrow> pydict \<Rightarrow> net \<Rightarrow> result" where
  "upload_mappings env options net =
     (let uri = [PStr ''upload_mappings'']
      in call_api_kwargs env ''get'' uri
           (only options [''next_cursor'', ''max_results'']) options net)"

definition upload_mapping :: "env \<Rightarrow> pyval \<Rightarrow> pydict \<Rightarrow> net \<Rightarrow> result" where
  "upload_mapping env name options net =
     (let uri = [PStr ''upload_mappings''];
          params = [(''folder'', name)]
      in call_api_kwargs env ''get'' uri params options net)"

definition delete_upload_mapping :: "env \<Rightarrow> pyval \<Rightarrow> pydict \<Rightarrow> net \<Rightarrow> result" where
  "delete_upload_mapping env name options net =
     (let uri = [PStr ''upload_mappings''];
          params = [(''folder'', name)]
      in call_api_kwargs env ''delete'' uri params options net)"

definition update_upload_mapping :: "env \<Rightarrow> pyval \<Rightarrow> pydict \<Rightarrow> net \<Rightarrow> result" where
  "update_upload_mapping env name options net =
     (let uri = [PStr ''upload_mappings''];
          params = [(''folder'', name)];
          params = dict_update params (only options [''template''])
      in call_api_kwargs env ''put'' uri params options net)"

definition create_upload_mapping :: "env \<Rightarrow> pyval \<Rightarrow> pydict \<Rightarrow> net \<Rightarrow> result" where
  "create_upload_mapping env name options net =
     (let uri = [PStr ''upload_mappings''];
          params = [(''folder'', name)];
          params = dict_update params (only options [''template''])
      in call_api_kwargs env ''post'' uri params options net)"

text \<open>\<^verbatim>\<open>__prepare_streaming_profile_params\<close>, line 348.\<close>

definition dump_representations :: "env \<Rightarrow> pyval \<Rightarrow> exc + pyval" where
  "dump_representations env v =
     (case iterate v of
        Inl e \<Rightarrow> Inl e
      | Inr xs \<Rightarrow>
     (case map_exc (transformation_string env) xs of
        Inl e \<Rightarrow> Inl e
      | Inr ts \<Rightarrow>
     (case json_dumps env (PList (map (\<lambda>t. PDict [(''transformation'', t)]) ts)) of
        Inl e \<Rightarrow> Inl e
      | Inr s \<Rightarrow> Inr (PStr s))))"

definition prepare_streaming_profile_params :: "env \<Rightarrow> pydict \<Rightarrow> exc + pydict" where
  "prepare_streaming_profile_params env options =
     (let params = only options [''display_name'']
      in forward options ''representations'' (dump_representations env) params)"

definition list_streaming_profiles :: "env \<Rightarrow> pydict \<Rightarrow> net \<Rightarrow> result" where
  "list_streaming_profiles env options net =
     call_api_kwargs env ''GET'' [PStr ''streaming_profiles''] [] options net"

definition get_streaming_profile :: "env \<Rightarrow> pyval \<Rightarrow> pydict \<Rightarrow> net \<Rightarrow> result" where
  "get_streaming_profile env name options net =
     call_api_kwargs env ''GET'' [PStr ''streaming_profiles'', name] [] options net"

definition delete_streaming_profile :: "env \<Rightarrow> pyval \<Rightarrow> pydict \<Rightarrow> net \<Rightarrow> result" where
  "delete_streaming_profile env name options net =
     call_api_kwargs env ''DELETE'' [PStr ''streaming_profiles'', name] [] options net"

definition create_streaming_profile :: "env \<Rightarrow> pyval \<Rightarrow> pydict \<Rightarrow> net \<Rightarrow> result" where
  "create_streaming_profile env name options net =
     (let uri = [PStr ''streaming_profiles'']
      in case prepare_streaming_profile_params env options of
           Inl e \<Rightarrow> (Inl e, net)
         | Inr params \<Rightarrow>
             call_api_kwargs env ''POST'' uri (dict_set params ''name'' name) options net)"

definition update_streaming_profile :: "env \<Rightarrow> pyval \<Rightarrow> pydict \<Rightarrow> net \<Rightarrow> result" where
  "update_streaming_profile env name options net =
     (let uri = [PStr ''streaming_profiles'', name]
      in case prepare_streaming_profile_params env options of
           Inl e \<Rightarrow> (Inl e, net)
         | Inr params \<Rightarrow> call_api_kwargs env ''PUT'' uri params options net)"

section \<open>The caller-facing surface\<close>

text \<open>
  A call of one operation of the module, with its positional arguments; \<open>dispatch\<close>
  runs the body of the operation on the keyword options, \<open>run\<close> is the call itself.
\<close>

datatype operation =
    Ping
  | Usage
  | Resource_types
  | Resources
  | Resources_by_tag pyval
  | Resources_by_moderation pyval pyval
  | Resources_by_ids pyval
  | Resource pyval
  | Update pyval
  | Delete_resources pyval
  | Delete_resources_by_prefix pyval
  | Delete_all_resources
  | Delete_resources_by_tag pyval
  | Delete_derived_resources pyval
  | Tags
  | Transformations
  | Transformation pyval
  | Delete_transformation pyval
  | Update_transformation pyval
  | Create_transformation pyval pyval
  | Upload_presets
  | Upload_preset pyval
  | Delete_upload_preset pyval
  | Update_upload_preset pyval
  | Create_upload_preset
  | Root_folders
  | Subfolders pyval
  | Restore pyval
  | Upload_mappings
  | Upload_mapping pyval
  | Delete_upload_mapping pyval
  | Update_upload_mapping pyval
  | Create_upload_mapping pyval
  | List_streaming_profiles
  | Get_streaming_profile pyval
  | Delete_streaming_profile pyval
  | Create_streaming_profile pyval
  | Update_streaming_profile pyval

fun dispatch :: "env \<Rightarrow> operation \<Rightarrow> pydict \<Rightarrow> net \<Rightarrow> result" where
  "dispatch env Ping options net = ping env options net"
| "dispatch env Usage options net = usage env options net"
| "dispatch env Resource_types options net = resource_types env options net"
| "dispatch env Resources options net = resources env options net"
| "dispatch env (Resources_by_tag tag) options net = resources_by_tag env tag options net"
| "dispatch env (Resources_by_moderation kind status') options net = resources_by_moderation env kind status' options net"
| "dispatch env (Resources_by_ids public_ids) options net = resources_by_ids env public_ids options net"
| "dispatch env (Resource public_id) options net = resource env public_id options net"
| "dispatch env (Update public_id) options net = update env public_id options net"
| "dispatch env (Delete_resources public_ids) options net = delete_resources env public_ids options net"
| "dispatch env (Delete_resources_by_prefix prefix') options net = delete_resources_by_prefix env prefix' options net"
| "dispatch env Delete_all_resources options net = delete_all_resources env options net"
| "dispatch env (Delete_resources_by_tag tag) options net = delete_resources_by_tag env tag options net"
| "dispatch env (Delete_derived_resources derived_resource_ids) options net = delete_derived_resources env derived_resource_ids options net"
| "dispatch env Tags options net = tags env options net"
| "dispatch env Transformations options net = transformations env options net"
| "dispatch env (Transformation t) options net = transformation env t options net"
| "dispatch env (Delete_transformation t) options net = delete_transformation env t options net"
| "dispatch env (Update_transformation t) options net = update_transformation env t options net"
| "dispatch env (Create_transformation name definition') options net = create_transformation env name definition' options net"
| "dispatch env Upload_presets options net = upload_presets env options net"
| "dispatch env (Upload_preset name) options net = upload_preset env name options net"
| "dispatch env (Delete_upload_preset name) options net = delete_upload_preset env name options net"
| "dispatch env (Update_upload_preset name) options net = update_upload_preset env name options net"
| "dispatch env Create_upload_preset options net = create_upload_preset env options net"
| "dispatch env Root_folders options net = root_folders env options net"
| "dispatch env (Subfolders of_folder_path) options net = subfolders env of_folder_path options net"
| "dispatch env (Restore public_ids) options net = restore env public_ids options net"
| "dispatch env Upload_mappings options net = upload_mappings env options net"
| "dispatch env (Upload_mapping name) options net = upload_mapping env name options net"
| "dispatch env (Delete_upload_mapping name) options net = delete_upload_mapping env name options net"
| "dispatch env (Update_upload_mapping name) options net = update_upload_mapping env name options net"
| "dispatch env (Create_upload_mapping name) options net = create_upload_mapping env name options net"
| "dispatch env List_streaming_profiles options net = list_streaming_profiles env options net"
| "dispatch env (Get_streaming_profile name) options net = get_streaming_profile env name options net"
| "dispatch env (Delete_streaming_profile name) options net = delete_streaming_profile env name options net"
| "dispatch env (Create_streaming_profile name) options net = create_streaming_profile env name options net"
| "dispatch env (Update_streaming_profile name) options net = update_streaming_profile env name options net"

text \<open>
  The names of the positional parameters of an operation. A keyword option with one of
  these names is a TypeError of the call, raised before the body of the operation runs.
\<close>

fun positional :: "operation \<Rightarrow> string list" where
  "positional (Resources_by_tag x) = [''tag'']"
| "positional (Resources_by_moderation x y) = [''kind'', ''status'']"
| "positional (Resources_by_ids x) = [''public_ids'']"
| "positional (Resource x) = [''public_id'']"
| "positional (Update x) = [''public_id'']"
| "positional (Delete_resources x) = [''public_ids'']"
| "positional (Delete_resources_by_prefix x) = [''prefix'']"
| "positional (Delete_resources_by_tag x) = [''tag'']"
| "positional (Delete_derived_resources x) = [''derived_resource_ids'']"
| "positional (Transformation x) = [''transformation'']"
| "positional (Delete_transformation x) = [''transformation'']"
| "positional (Update_transformation x) = [''transformation'']"
| "positional (Create_transformation x y) = [''name'', ''definition'']"
| "positional (Upload_preset x) = [''name'']"
| "positional (Delete_upload_preset x) = [''name'']"
| "positional (Update_upload_preset x) = [''name'']"
| "positional (Subfolders x) = [''of_folder_path'']"
| "positional (Restore x) = [''public_ids'']"
| "positional (Upload_mapping x) = [''name'']"
| "positional (Delete_upload_mapping x) = [''name'']"
| "positional (Update_upload_mapping x) = [''name'']"
| "positional (Create_upload_mapping x) = [''name'']"
| "positional (Get_streaming_profile x) = [''name'']"
| "positional (Delete_streaming_profile x) = [''name'']"
| "positional (Create_streaming_profile x) = [''name'']"
| "positional (Update_streaming_profile x) = [''name'']"
| "positional op = []"

definition run :: "env \<Rightarrow> operation \<Rightarrow> pydict \<Rightarrow> net \<Rightarrow> result" where
  "run env op options net =
     (if list_ex (has_key options) (positional op) then (Inl TypeError, net)
      else dispatch env op options net)"

text \<open>
  The keys an operation hands to \<^verbatim>\<open>only\<close>, the keys it copies under an explicit test
  \<^verbatim>\<open>if k in options\<close>, and the keys it sets itself from a positional argument or a
  constant.
\<close>

fun whitelist :: "operation \<Rightarrow> string list" where
  "whitelist Resources = [''next_cursor'', ''max_results'', ''prefix'', ''tags'', ''context'',
     ''moderations'', ''direction'', ''start_at'']"
| "whitelist (Resources_by_tag x) = [''next_cursor'', ''max_results'', ''tags'', ''context'',
     ''moderations'', ''direction'']"
| "whitelist (Resources_by_moderation x y) = [''next_cursor'', ''max_results'', ''tags'',
     ''context'', ''moderations'', ''direction'']"
| "whitelist (Resources_by_ids x) = [''tags'', ''moderations'', ''context'']"
| "whitelist (Resource x) = [''exif'', ''faces'', ''colors'', ''image_metadata'', ''pages'',
     ''phash'', ''coordinates'', ''max_results'']"
| "whitelist (Update x) = [''moderation_status'', ''raw_convert'', ''ocr'', ''categorization'',
     ''detection'', ''similarity_search'', ''background_removal'']"
| "whitelist (Delete_resources x) = [''keep_original'', ''next_cursor'', ''invalidate'']"
| "whitelist (Delete_resources_by_prefix x) = [''keep_original'', ''next_cursor'',
     ''invalidate'']"
| "whitelist Delete_all_resources = [''keep_original'', ''next_cursor'', ''invalidate'']"
| "whitelist (Delete_resources_by_tag x) = [''keep_original'', ''next_cursor'', ''invalidate'']"
| "whitelist Tags = [''next_cursor'', ''max_results'', ''prefix'']"
| "whitelist Transformations = [''next_cursor'', ''max_results'']"
| "whitelist (Transformation x) = [''next_cursor'', ''max_results'']"
| "whitelist (Update_transformation x) = [''allowed_for_strict'']"
| "whitelist Upload_presets = [''next_cursor'', ''max_results'']"
| "whitelist (Upload_preset x) = [''max_results'']"
| "whitelist (Update_upload_preset x) = [''unsigned'', ''disallow_public_id'']"
| "whitelist Create_upload_preset = [''unsigned'', ''disallow_public_id'', ''name'']"
| "whitelist Upload_mappings = [''next_cursor'', ''max_results'']"
| "whitelist (Update_upload_mapping x) = [''template'']"
| "whitelist (Create_upload_mapping x) = [''template'']"
| "whitelist (Create_streaming_profile x) = [''display_name'']"
| "whitelist (Update_streaming_profile x) = [''display_name'']"
| "whitelist op = []"

fun forwarded :: "operation \<Rightarrow> string list" where
  "forwarded (Update x) = [''tags'', ''face_coordinates'', ''custom_coordinates'', ''context'',
     ''auto_tagging'']"
| "forwarded (Update_transformation x) = [''unsafe_update'']"
| "forwarded (Create_streaming_profile x) = [''representations'']"
| "forwarded (Update_streaming_profile x) = [''representations'']"
| "forwarded op = []"

fun fixed :: "operation \<Rightarrow> string list" where
  "fixed (Resources_by_ids x) = [''public_ids[]'']"
| "fixed (Delete_resources x) = [''public_ids[]'']"
| "fixed (Delete_resources_by_prefix x) = [''prefix'']"
| "fixed Delete_all_resources = [''all'']"
| "fixed (Delete_derived_resources x) = [''derived_resource_ids[]'']"
| "fixed (Create_transformation x y) = [''transformation'']"
| "fixed (Restore x) = [''public_ids[]'']"
| "fixed (Upload_mapping x) = [''folder'']"
| "fixed (Delete_upload_mapping x) = [''folder'']"
| "fixed (Update_upload_mapping x) = [''folder'']"
| "fixed (Create_upload_mapping x) = [''folder'']"
| "fixed (Create_streaming_profile x) = [''name'']"
| "fixed op = []"

text \<open>
  The keys of the parameters the external \<^verbatim>\<open>build_upload_params\<close> and
  \<^verbatim>\<open>cleanup_params\<close> produce for the two preset operations that call them.
\<close>

fun built :: "env \<Rightarrow> operation \<Rightarrow> pydict \<Rightarrow> string list" where
  "built env (Update_upload_preset x) options =
     (case preset_params env options of Inl e \<Rightarrow> [] | Inr params \<Rightarrow> map fst params)"
| "built env Create_upload_preset options =
     (case preset_params env options of Inl e \<Rightarrow> [] | Inr params \<Rightarrow> map fst params)"
| "built env op options = []"

text \<open>
  The parameter names an operation can transmit: the keys it selects with \<^verbatim>\<open>only\<close>,
  the keys it forwards explicitly, the keys it sets itself, and for the preset operations
  the keys the external builder produced.
\<close>

definition allowed :: "env \<Rightarrow> operation \<Rightarrow> pydict \<Rightarrow> string list" where
  "allowed env op options = whitelist op @ forwarded op @ fixed op @ built env op options"

section \<open>Notions of the specification\<close>

text \<open>
  The dictionary a decoded JSON object fills the response wrapper with: the entries of
  the object under their string keys, and nothing else.
\<close>

definition body_items :: "pydict \<Rightarrow> pymap" where
  "body_items d = (\<lambda>k. case k of PStr s \<Rightarrow> map_of d s | _ \<Rightarrow> None)"

text \<open>
  Configuration resolution as the specification words it: the explicit per-call option,
  else the process-wide value; and, for the upload prefix only, the built-in default
  where that gives nothing.
\<close>

definition resolve :: "pydict \<Rightarrow> string \<Rightarrow> pyval \<Rightarrow> pyval" where
  "resolve options k configured = (case map_of options k of None \<Rightarrow> configured | Some v \<Rightarrow> v)"

definition or_default :: "pyval \<Rightarrow> pyval" where
  "or_default v = (if truthy v then v else PStr ''https://api.cloudinary.com'')"

section \<open>An environment for the examples\<close>

text \<open>
  A configured client and a small remote service that answers by URL: a successful
  \<^verbatim>\<open>ping\<close>, a resource that does not exist (404), a service that is unavailable (503,
  a status \<open>EXCEPTION_CODES\<close> does not list), an answer without the
  \<^verbatim>\<open>x-featureratelimit-remaining\<close> header, answers whose error entry is a plain text,
  an answer whose limit header is no number, an answer whose body is a JSON array, a
  request that times out and a connection that is refused. The library functions are
  given on the values this service sends; the helpers of \<^verbatim>\<open>cloudinary.utils\<close> are
  stand-ins.
\<close>

definition demo_config :: config where
  "demo_config =
     \<lparr>cloud_name = PStr ''demo'',
      api_key = PStr ''key'',
      api_secret = PStr ''secret'',
      upload_prefix = PNone\<rparr>"

definition demo_headers :: "string \<Rightarrow> string option" where
  "demo_headers = map_of
     [(''x-featureratelimit-limit'', ''500''),
      (''x-featureratelimit-reset'', ''Wed, 04 Nov 2026 12:00:00 GMT''),
      (''x-featureratelimit-remaining'', ''499'')]"

definition demo_service :: "request \<Rightarrow> outcome" where
  \<open>demo_service req =
     (if req_url req = ''https://api.cloudinary.com/v1_1/demo/ping''
      then Reply \<lparr>status = 200, data = ''{"status": "ok"}'', headers = demo_headers\<rparr>
      else if req_url req = ''https://api.cloudinary.com/v1_1/demo/resources/image/upload/missing''
      then Reply \<lparr>status = 404,
                   data = ''{"error": {"message": "Resource not found - missing"}}'',
                   headers = demo_headers\<rparr>
      else if req_url req = ''https://api.cloudinary.com/v1_1/demo/usage''
      then Reply \<lparr>status = 503,
                   data = ''{"error": {"message": "Service unavailable"}}'',
                   headers = demo_headers\<rparr>
      else if req_url req = ''https://api.cloudinary.com/v1_1/demo/folders''
      then Reply \<lparr>status = 200,
                   data = ''{"folders": []}'',
                   headers = demo_headers(''x-featureratelimit-remaining'' := None)\<rparr>
      else if req_url req = ''https://api.cloudinary.com/v1_1/demo/tags/image''
      then Reply \<lparr>status = 404,
                   data = ''{"error": "Resource not found"}'',
                   headers = demo_headers\<rparr>
      else if req_url req = ''https://api.cloudinary.com/v1_1/demo/upload_presets''
      then Reply \<lparr>status = 503,
                   data = ''{"error": "Service unavailable"}'',
                   headers = demo_headers\<rparr>
      else if req_url req = ''https://api.cloudinary.com/v1_1/demo/upload_mappings''
      then Reply \<lparr>status = 200,
                   data = ''{"status": "ok"}'',
                   headers = demo_headers(''x-featureratelimit-limit'' \<mapsto> ''unlimited'')\<rparr>
      else if req_url req = ''https://api.cloudinary.com/v1_1/demo/streaming_profiles''
      then Reply \<lparr>status = 200, data = ''[1]'', headers = demo_headers\<rparr>
      else if req_url req = ''https://api.cloudinary.com/v1_1/demo/transformations''
      then HTTPError (Some ''Read timed out.'')
      else SocketError ''[Errno 111] Connection refused'')\<close>

definition demo_json :: "string \<Rightarrow> string + pyval" where
  \<open>demo_json body =
     (if body = ''{"status": "ok"}'' then Inr (PDict [(''status'', PStr ''ok'')])
      else if body = ''{"error": {"message": "Resource not found - missing"}}''
      then Inr (PDict [(''error'', PDict [(''message'', PStr ''Resource not found - missing'')])])
      else if body = ''{"error": {"message": "Service unavailable"}}''
      then Inr (PDict [(''error'', PDict [(''message'', PStr ''Service unavailable'')])])
      else if body = ''{"folders": []}'' then Inr (PDict [(''folders'', PList [])])
      else if body = ''{"error": "Resource not found"}''
      then Inr (PDict [(''error'', PStr ''Resource not found'')])
      else if body = ''{"error": "Service unavailable"}''
      then Inr (PDict [(''error'', PStr ''Service unavailable'')])
      else if body = ''[1]'' then Inr (PList [PInt 1])
      else Inl ''Expecting value: line 1 column 1 (char 0)'')\<close>

definition demo_int :: "string \<Rightarrow> int option" where
  "demo_int = map_of [(''500'', 500), (''499'', 499)]"

definition demo_parsedate :: "string \<Rightarrow> int list option" where
  "demo_parsedate = map_of [(''Wed, 04 Nov 2026 12:00:00 GMT'', [2026, 11, 4, 12, 0, 0, 0, 1, - 1])]"

definition demo_env :: env where
  "demo_env =
     \<lparr>config = demo_config,
      get_user_agent = ''CloudinaryPython/1.0'',
      http_request = demo_service,
      json_loads = demo_json,
      bytes_str = (\<lambda>body. body),
      py_int = demo_int,
      parsedate = demo_parsedate,
      py_repr = (\<lambda>v. ''...''),
      generate_transformation_string = (\<lambda>d. Inr (PStr ''w_100'')),
      build_array = (\<lambda>v. Inr v),
      encode_double_array = (\<lambda>v. Inr v),
      encode_dict = (\<lambda>v. Inr v),
      build_upload_params = (\<lambda>options. Inr []),
      cleanup_params = (\<lambda>params. Inr params),
      json_dumps = (\<lambda>v. Inr ''[]'')\<rparr>"

text \<open>The request a call with no parameters and no options sends for a path.\<close>

definition demo_request :: "string \<Rightarrow> request" where
  "demo_request path =
     \<lparr>req_method = ''GET'',
      req_url = ''https://api.cloudinary.com/v1_1/demo/'' @ path,
      req_fields = [],
      req_headers = \<lparr>basic_auth = ''key:secret'', user_agent = ''CloudinaryPython/1.0''\<rparr>,
      req_timeout = None\<rparr>"

text \<open>The same client with an upload prefix configured.\<close>

definition eu_env :: env where
  "eu_env = demo_env\<lparr>config := demo_config\<lparr>upload_prefix := PStr ''https://eu.example.com''\<rparr>\<rparr>"

section \<open>Dictionaries: what the operations do to the map they denote\<close>

lemma map_of_dict_del: "map_of (dict_del k d) = (map_of d)(k := None)"
  by (induction d) (auto simp: fun_eq_iff)

lemma map_of_dict_set: "map_of (dict_set d k v) = (map_of d)(k \<mapsto> v)"
  by (induction d) (auto simp: fun_eq_iff map_of_dict_del)

lemma map_of_dict_items: "map_of (dict_items d) = map_of d"
  by (induction d) (auto simp: fun_eq_iff map_of_dict_del)

lemma keys_dict_del: "fst ` set (dict_del k d) = fst ` set d - {k}"
  using arg_cong [OF map_of_dict_del [of k d], of dom] by (simp add: dom_map_of_conv_image_fst)

lemma distinct_dict_del: "distinct (map fst d) \<Longrightarrow> distinct (map fst (dict_del k d))"
  by (induction d) (auto simp: keys_dict_del)

lemma distinct_dict_items: "distinct (map fst (dict_items d))"
  by (induction d) (auto simp: distinct_dict_del keys_dict_del)

lemma map_of_fold_set:
  "distinct (map fst xs) \<Longrightarrow>
   map_of (fold (\<lambda>(k, v) acc. dict_set acc k v) xs d) = map_of d ++ map_of xs"
proof (induction xs arbitrary: d)
  case Nil
  then show ?case by simp
next
  case (Cons x xs)
  obtain k v where x: "x = (k, v)" by (cases x)
  from Cons.prems x have "k \<notin> fst ` set xs" and "distinct (map fst xs)" by auto
  then have "map_of xs k = None" by (simp add: map_of_eq_None_iff)
  with Cons.IH [OF \<open>distinct (map fst xs)\<close>, of "dict_set d k v"] x
  show ?case by (auto simp: map_of_dict_set fun_eq_iff map_add_def split: option.splits)
qed

lemma map_of_dict_update: "map_of (dict_update d other) = map_of d ++ map_of other"
  by (simp add: dict_update_def map_of_fold_set distinct_dict_items map_of_dict_items)

lemma map_of_only_fold:
  "map_of (fold (\<lambda>key acc. case map_of source key of None \<Rightarrow> acc | Some v \<Rightarrow> dict_set acc key v) keys acc) k
     = (if k \<in> set keys \<and> map_of source k \<noteq> None then map_of source k else map_of acc k)"
  by (induction keys arbitrary: acc) (auto simp: map_of_dict_set split: option.splits)

lemma map_of_only:
  "map_of (only source keys) k = (if k \<in> set keys then map_of source k else None)"
  by (simp add: only_def map_of_only_fold)

lemma has_key_only: "has_key (only source keys) k = (k \<in> set keys \<and> has_key source k)"
  by (simp add: has_key_def map_of_only)

lemma has_key_dict_set: "has_key (dict_set d k v) k' = (k' = k \<or> has_key d k')"
  by (simp add: has_key_def map_of_dict_set)

lemma has_key_dict_update: "has_key (dict_update d other) k = (has_key d k \<or> has_key other k)"
  by (auto simp: has_key_def map_of_dict_update)

lemma has_key_append: "has_key (xs @ ys) k = (has_key xs k \<or> has_key ys k)"
  by (auto simp: has_key_def)

lemma has_key_pairs: "has_key (map (Pair name) ys) k \<Longrightarrow> k = name"
  by (auto simp: has_key_def map_of_eq_None_iff)

lemma has_key_forward:
  "forward options k encode params = Inr params' \<Longrightarrow> has_key params' k' \<Longrightarrow> k' = k \<or> has_key params k'"
  by (auto simp: forward_def has_key_dict_set split: option.splits sum.splits)

lemma has_key_keys: "has_key d k = (k \<in> fst ` set d)"
  by (simp add: has_key_def map_of_eq_None_iff)

lemma has_key_Nil: "\<not> has_key [] k"
  by (simp add: has_key_def)

lemma has_key_Cons: "has_key ((a, v) # d) k = (k = a \<or> has_key d k)"
  by (auto simp: has_key_def)

lemma pop_fst: "fst (dict_pop d k dflt) = (case map_of d k of None \<Rightarrow> dflt | Some v \<Rightarrow> v)"
  by (simp add: dict_pop_def split: option.splits)

lemma pop_snd: "map_of (snd (dict_pop d k dflt)) k' = (if k' = k then None else map_of d k')"
  by (auto simp: dict_pop_def map_of_dict_del split: option.splits)

section \<open>The dispatcher in closed form\<close>

text \<open>
  The four \<^verbatim>\<open>pop\<close>s of \<^verbatim>\<open>call_api\<close> pick, for each setting, the option when the caller
  gave one and the configured value otherwise. The test of line 304 repeats the one of line
  300 and never fires, so two tests are left; nothing is sent before they and the join of
  the URL have passed, and then exactly one request is sent.
\<close>

lemma call_api_closed:
  "call_api env method uri params options net =
     (let pick = (\<lambda>k c. case map_of options k of None \<Rightarrow> c | Some v \<Rightarrow> v);
          p = pick ''upload_prefix'' (upload_prefix (config env));
          pfx = (if truthy p then p else PStr ''https://api.cloudinary.com'');
          cloud = pick ''cloud_name'' (cloud_name (config env));
          key = pick ''api_key'' (api_key (config env));
          secret = pick ''api_secret'' (api_secret (config env))
      in if \<not> truthy cloud then (Inl (Raised Exception [''Must supply cloud_name'']), net)
         else if \<not> truthy key then (Inl (Raised Exception [''Must supply api_key'']), net)
         else case str_join ''/'' ([pfx, PStr ''v1_1'', cloud] @ uri) of
                Inl e \<Rightarrow> (Inl e, net)
              | Inr api_url \<Rightarrow>
                  let req = \<lparr>req_method = upper method, req_url = api_url, req_fields = params,
                             req_headers = \<lparr>basic_auth = py_str (py_repr env) key @ '':'' @ py_str (py_repr env) secret,
                                            user_agent = get_user_agent env\<rparr>,
                             req_timeout = map_of options ''timeout''\<rparr>
                  in (receive env req, net @ [req]))"
  by (simp add: call_api_def Let_def case_prod_beta pop_fst pop_snd split: sum.splits)

lemma call_api_sent:
  assumes "snd (call_api env method uri params options net) = net @ [req]"
  shows "fst (call_api env method uri params options net) = receive env req"
    and "req_fields req = params"
    and "req_method req = upper method"
    and "req_timeout req = map_of options ''timeout''"
  using assms by (auto simp: call_api_closed Let_def split: if_splits sum.splits)

lemma call_api_net:
  "snd (call_api env method uri params options net) = net \<or>
   (\<exists>req. snd (call_api env method uri params options net) = net @ [req])"
  by (auto simp: call_api_closed Let_def split: if_splits sum.splits)

lemma call_api_kwargs_sent:
  assumes "snd (call_api_kwargs env method uri params options net) = net @ [req]"
  shows "snd (call_api env method uri params options net) = net @ [req]"
    and "call_api_kwargs env method uri params options net = call_api env method uri params options net"
  using assms by (auto simp: call_api_kwargs_def split: if_splits)

lemma call_api_url:
  assumes "snd (call_api env method uri params options net) = net @ [req]"
  shows "str_join ''/''
           ([or_default (resolve options ''upload_prefix'' (upload_prefix (config env))),
             PStr ''v1_1'',
             resolve options ''cloud_name'' (cloud_name (config env))] @ uri) = Inr (req_url req)"
  using assms
  by (auto simp: call_api_closed Let_def resolve_def or_default_def split: if_splits sum.splits)

lemma kwargs_fields:
  "snd (call_api_kwargs env method uri params options net) = net @ [req] \<Longrightarrow>
   req_fields req = params"
  using call_api_kwargs_sent(1) call_api_sent(2) by blast

lemma kwargs_net:
  "snd (call_api_kwargs env method uri params options net) = net \<or>
   (\<exists>req. snd (call_api_kwargs env method uri params options net) = net @ [req])"
  using call_api_net
  by (auto simp: call_api_kwargs_def)

lemma call_api_requires_cloud_name:
  assumes "\<not> has_key options ''cloud_name''" and "\<not> truthy (cloud_name (config env))"
  shows "call_api env method uri params options net =
           (Inl (Raised Exception [''Must supply cloud_name'']), net)"
  using assms by (simp add: call_api_closed Let_def has_key_def)

lemma call_api_requires_api_key:
  assumes "\<not> has_key options ''api_key''" and "\<not> truthy (api_key (config env))"
  shows "call_api env method uri params options net =
           (Inl (Raised Exception [''Must supply cloud_name'']), net) \<or>
         call_api env method uri params options net =
           (Inl (Raised Exception [''Must supply api_key'']), net)"
  using assms by (simp add: call_api_closed Let_def has_key_def)

section \<open>Error bodies\<close>

lemma receive_error_body:
  assumes "http_request env req = Reply response"
    and "json_loads env (data response) = Inr (PDict body)"
    and "map_of body ''error'' = Some (PDict err)"
    and "map_of err ''message'' = Some message"
  shows "receive env req =
           Inl (Raised (case EXCEPTION_CODES (status response) of Some c \<Rightarrow> c | None \<Rightarrow> Exception)
                  [''Error '' @ str_int (status response) @ '' - '' @ py_str (py_repr env) message])"
  using assms by (simp add: receive_def has_key_def)

lemma EXCEPTION_CODES_None:
  "EXCEPTION_CODES s = None \<longleftrightarrow> s \<notin> {400, 401, 403, 404, 409, 420, 500}"
  by (simp add: EXCEPTION_CODES_def)

lemma str_int_404: "str_int 404 = ''404''"
  by (simp add: str_int_def)

lemmas demo_simps =
  demo_env_def demo_config_def demo_service_def demo_json_def demo_headers_def demo_int_def
  demo_parsedate_def

lemmas run_simps =
  call_api_closed call_api_kwargs_def receive_def Response_init_def header_int_def has_key_def
  Let_def str_int_def EXCEPTION_CODES_def upper_def upper_char_def

text \<open>
  C3, as the code has it. When a request was sent, the service replied, and the decoded
  body is an object whose \<^verbatim>\<open>"error"\<close> entry is an object with a \<^verbatim>\<open>"message"\<close>: with
  status 404 the call raises \<^verbatim>\<open>NotFound\<close> with the message \<^verbatim>\<open>"Error 404 - "\<close> followed
  by the service's message, and with any status \<open>EXCEPTION_CODES\<close> lists it raises the
  listed class with the message \<^verbatim>\<open>"Error {status} - {message}"\<close>. The table has the
  seven entries 400, 401, 403, 404, 409, 420 and 500.
\<close>

theorem mapped_status_raises_subtype:
  assumes sent: "snd (call_api env method uri params options net) = net @ [req]"
    and reply: "http_request env req = Reply response"
    and body: "json_loads env (data response) = Inr (PDict body)"
    and err: "map_of body ''error'' = Some (PDict err)"
    and msg: "map_of err ''message'' = Some message"
  shows "(status response = 404 \<longrightarrow>
            fst (call_api env method uri params options net) =
              Inl (Raised NotFound [''Error 404 - '' @ py_str (py_repr env) message])) \<and>
         (\<forall>c. EXCEPTION_CODES (status response) = Some c \<longrightarrow>
            fst (call_api env method uri params options net) =
              Inl (Raised c [''Error '' @ str_int (status response) @ '' - ''
                             @ py_str (py_repr env) message])) \<and>
         EXCEPTION_CODES 400 = Some BadRequest \<and>
         EXCEPTION_CODES 401 = Some AuthorizationRequired \<and>
         EXCEPTION_CODES 403 = Some NotAllowed \<and>
         EXCEPTION_CODES 404 = Some NotFound \<and>
         EXCEPTION_CODES 409 = Some AlreadyExists \<and>
         EXCEPTION_CODES 420 = Some RateLimited \<and>
         EXCEPTION_CODES 500 = Some GeneralError"
proof -
  have r: "fst (call_api env method uri params options net) =
           Inl (Raised (case EXCEPTION_CODES (status response) of Some c \<Rightarrow> c | None \<Rightarrow> Exception)
                  [''Error '' @ str_int (status response) @ '' - '' @ py_str (py_repr env) message])"
    using call_api_sent(1) [OF sent] receive_error_body [OF reply body err msg] by simp
  have t: "EXCEPTION_CODES 404 = Some NotFound"
    by (simp add: EXCEPTION_CODES_def)
  have "status response = 404 \<longrightarrow>
            fst (call_api env method uri params options net) =
              Inl (Raised NotFound [''Error 404 - '' @ py_str (py_repr env) message])"
    using r t by (simp add: str_int_404)
  moreover have "\<forall>c. EXCEPTION_CODES (status response) = Some c \<longrightarrow>
            fst (call_api env method uri params options net) =
              Inl (Raised c [''Error '' @ str_int (status response) @ '' - ''
                             @ py_str (py_repr env) message])"
    using r by simp
  ultimately show ?thesis by (simp add: EXCEPTION_CODES_def)
qed

theorem mapped_status_raises_subtype_witness:
  \<open>snd (call_api demo_env ''get''
          [PStr ''resources'', PStr ''image'', PStr ''upload'', PStr ''missing''] [] [] []) =
     [] @ [demo_request ''resources/image/upload/missing''] \<and>
   http_request demo_env (demo_request ''resources/image/upload/missing'') =
     Reply \<lparr>status = 404,
            data = ''{"error": {"message": "Resource not found - missing"}}'',
            headers = demo_headers\<rparr> \<and>
   fst (call_api demo_env ''get''
          [PStr ''resources'', PStr ''image'', PStr ''upload'', PStr ''missing''] [] [] []) =
     Inl (Raised NotFound [''Error 404 - Resource not found - missing''])\<close>
proof -
  let ?resp = \<open>\<lparr>status = 404,
            data = ''{"error": {"message": "Resource not found - missing"}}'',
            headers = demo_headers\<rparr>\<close>
  have sent: "snd (call_api demo_env ''get''
          [PStr ''resources'', PStr ''image'', PStr ''upload'', PStr ''missing''] [] [] []) =
     [] @ [demo_request ''resources/image/upload/missing'']"
    by (simp add: demo_simps run_simps demo_request_def)
  have reply: "http_request demo_env (demo_request ''resources/image/upload/missing'') =
     Reply ?resp"
    by (simp add: demo_simps demo_request_def)
  have body: "json_loads demo_env (data ?resp) =
     Inr (PDict [(''error'', PDict [(''message'', PStr ''Resource not found - missing'')])])"
    by (simp add: demo_simps)
  have err: "map_of [(''error'', PDict [(''message'', PStr ''Resource not found - missing'')])]
       ''error'' = Some (PDict [(''message'', PStr ''Resource not found - missing'')])"
    by simp
  have msg: "map_of [(''message'', PStr ''Resource not found - missing'')] ''message'' =
       Some (PStr ''Resource not found - missing'')"
    by simp
  from mapped_status_raises_subtype [OF sent reply body err msg] sent reply show ?thesis
    by simp
qed

text \<open>
  C3 as stated fails: the service of the examples answers \<^verbatim>\<open>tags/image\<close> with status
  404 and a body whose \<^verbatim>\<open>"error"\<close> entry is a plain text. The body has the key, the
  request was sent, and line 332 fails on \<^verbatim>\<open>result["error"]["message"]\<close> with a
  TypeError: no \<^verbatim>\<open>NotFound\<close> is raised.
\<close>

theorem error_without_message_raises_type_error:
  \<open>snd (call_api demo_env ''get'' [PStr ''tags'', PStr ''image''] [] [] []) =
     [demo_request ''tags/image''] \<and>
   http_request demo_env (demo_request ''tags/image'') =
     Reply \<lparr>status = 404, data = ''{"error": "Resource not found"}'', headers = demo_headers\<rparr> \<and>
   json_loads demo_env ''{"error": "Resource not found"}'' =
     Inr (PDict [(''error'', PStr ''Resource not found'')]) \<and>
   contains (PDict [(''error'', PStr ''Resource not found'')]) ''error'' = Inr True \<and>
   fst (call_api demo_env ''get'' [PStr ''tags'', PStr ''image''] [] [] []) = Inl TypeError\<close>
  by (simp add: demo_simps run_simps demo_request_def)
text \<open>
  C2, as the code has it. When a request was sent, the service replied with a status that
  is none of 400, 401, 403, 404, 409, 420 and 500, and the decoded body is an object
  whose \<^verbatim>\<open>"error"\<close> entry is an object with a \<^verbatim>\<open>"message"\<close>: the call raises the
  built-in \<^verbatim>\<open>Exception\<close> with the message \<^verbatim>\<open>"Error {status} - {message}"\<close>.
\<close>

theorem unmapped_status_raises_builtin_exception:
  assumes sent: "snd (call_api env method uri params options net) = net @ [req]"
    and reply: "http_request env req = Reply response"
    and body: "json_loads env (data response) = Inr (PDict body)"
    and err: "map_of body ''error'' = Some (PDict err)"
    and msg: "map_of err ''message'' = Some message"
    and unmapped: "status response \<notin> {400, 401, 403, 404, 409, 420, 500}"
  shows "fst (call_api env method uri params options net) =
           Inl (Raised Exception [''Error '' @ str_int (status response) @ '' - ''
                                  @ py_str (py_repr env) message])"
proof -
  from unmapped have "EXCEPTION_CODES (status response) = None"
    by (simp add: EXCEPTION_CODES_None)
  with call_api_sent(1) [OF sent] receive_error_body [OF reply body err msg]
  show ?thesis by simp
qed

theorem unmapped_status_raises_builtin_exception_witness:
  \<open>snd (call_api demo_env ''get'' [PStr ''usage''] [] [] []) = [] @ [demo_request ''usage''] \<and>
   http_request demo_env (demo_request ''usage'') =
     Reply \<lparr>status = 503,
            data = ''{"error": {"message": "Service unavailable"}}'',
            headers = demo_headers\<rparr> \<and>
   fst (call_api demo_env ''get'' [PStr ''usage''] [] [] []) =
     Inl (Raised Exception [''Error 503 - Service unavailable''])\<close>
proof -
  let ?resp = \<open>\<lparr>status = 503,
            data = ''{"error": {"message": "Service unavailable"}}'',
            headers = demo_headers\<rparr>\<close>
  have sent: "snd (call_api demo_env ''get'' [PStr ''usage''] [] [] []) =
     [] @ [demo_request ''usage'']"
    by (simp add: demo_simps run_simps demo_request_def)
  have reply: "http_request demo_env (demo_request ''usage'') = Reply ?resp"
    by (simp add: demo_simps demo_request_def)
  have body: "json_loads demo_env (data ?resp) =
     Inr (PDict [(''error'', PDict [(''message'', PStr ''Service unavailable'')])])"
    by (simp add: demo_simps)
  have err: "map_of [(''error'', PDict [(''message'', PStr ''Service unavailable'')])]
       ''error'' = Some (PDict [(''message'', PStr ''Service unavailable'')])"
    by simp
  have msg: "map_of [(''message'', PStr ''Service unavailable'')] ''message'' =
       Some (PStr ''Service unavailable'')"
    by simp
  have unmapped: "status ?resp \<notin> {400, 401, 403, 404, 409, 420, 500}"
    by simp
  from unmapped_status_raises_builtin_exception [OF sent reply body err msg unmapped] sent reply show ?thesis
    by (simp add: str_int_def)
qed

text \<open>
  C2 as stated fails: the service of the examples answers \<^verbatim>\<open>usage\<close> with status 503 and
  an error body, and the exception raised is the built-in \<^verbatim>\<open>Exception\<close>, which is not
  the module's \<^verbatim>\<open>Error\<close> nor derived from it. It answers \<^verbatim>\<open>upload_presets\<close> with
  status 503 and an \<^verbatim>\<open>"error"\<close> entry that is a plain text, and the call fails with a
  TypeError.
\<close>

theorem unmapped_status_not_module_error:
  \<open>snd (call_api demo_env ''get'' [PStr ''usage''] [] [] []) = [demo_request ''usage''] \<and>
   http_request demo_env (demo_request ''usage'') =
     Reply \<lparr>status = 503, data = ''{"error": {"message": "Service unavailable"}}'',
            headers = demo_headers\<rparr> \<and>
   fst (call_api demo_env ''get'' [PStr ''usage''] [] [] []) =
     Inl (Raised Exception [''Error 503 - Service unavailable'']) \<and>
   Exception \<noteq> Error \<and>
   \<not> is_subclass Exception Error \<and>
   snd (call_api demo_env ''get'' [PStr ''upload_presets''] [] [] []) =
     [demo_request ''upload_presets''] \<and>
   http_request demo_env (demo_request ''upload_presets'') =
     Reply \<lparr>status = 503, data = ''{"error": "Service unavailable"}'', headers = demo_headers\<rparr> \<and>
   fst (call_api demo_env ''get'' [PStr ''upload_presets''] [] [] []) = Inl TypeError\<close>
  by (simp add: demo_simps run_simps demo_request_def is_subclass_def)
section \<open>Successful responses\<close>

lemma fold_items:
  "distinct (map fst xs) \<Longrightarrow>
   fold (\<lambda>(k, v) acc. acc(PStr k \<mapsto> v)) xs m =
     (\<lambda>k. case body_items xs k of Some v \<Rightarrow> Some v | None \<Rightarrow> m k)"
proof (induction xs arbitrary: m)
  case Nil
  then show ?case by (simp add: body_items_def fun_eq_iff split: pyval.splits)
next
  case (Cons x xs)
  obtain k v where x: "x = (k, v)" by (cases x)
  from Cons.prems x have "map_of xs k = None" and d: "distinct (map fst xs)"
    by (auto simp: map_of_eq_None_iff)
  with Cons.IH [OF d, of "m(PStr k \<mapsto> v)"] x show ?case
    by (auto simp: body_items_def fun_eq_iff split: pyval.splits option.splits)
qed

lemma fold_body_items:
  "fold (\<lambda>(k, v) acc. acc(PStr k \<mapsto> v)) (dict_items d) Map.empty = body_items d"
  using fold_items [OF distinct_dict_items, of d Map.empty]
  by (simp add: body_items_def map_of_dict_items fun_eq_iff split: pyval.splits option.splits)

lemma receive_success_body:
  assumes "http_request env req = Reply response"
    and "json_loads env (data response) = Inr (PDict body)"
    and "\<not> has_key body ''error''"
  shows "receive env req = Response_init env (PDict body) response"
  using assms by (simp add: receive_def)

lemma Response_init_ok:
  assumes "headers response ''x-featureratelimit-limit'' = Some l"
    and "headers response ''x-featureratelimit-reset'' = Some r"
    and "headers response ''x-featureratelimit-remaining'' = Some m"
    and "py_int env l = Some a"
    and "py_int env m = Some b"
  shows "Response_init env (PDict body) response =
           Inr \<lparr>items = body_items body,
                rate_limit_allowed = a,
                rate_limit_reset_at = parsedate env r,
                rate_limit_remaining = b\<rparr>"
  using assms by (simp add: Response_init_def header_int_def fold_body_items)

lemma Response_init_missing:
  assumes "headers response ''x-featureratelimit-limit'' = None \<or>
           headers response ''x-featureratelimit-reset'' = None \<or>
           headers response ''x-featureratelimit-remaining'' = None"
  shows "isl (Response_init env result response)"
  using assms
  by (auto simp: Response_init_def header_int_def split: sum.splits option.splits)

text \<open>
  C4, as the code has it. When a request was sent, the service replied, and the decoded
  body is an object without an \<^verbatim>\<open>"error"\<close> entry: if the three rate-limit headers are
  there, with texts \<^verbatim>\<open>int\<close> accepts for the limit and the remaining count, the call
  returns the wrapper that holds every entry of the body, the two integers and the result
  of \<^verbatim>\<open>parsedate\<close> on the reset header; if one of the three headers is missing, the call
  raises.
\<close>

theorem success_wraps_body_and_rate_limits:
  assumes sent: "snd (call_api env method uri params options net) = net @ [req]"
    and reply: "http_request env req = Reply response"
    and body: "json_loads env (data response) = Inr (PDict body)"
    and no_error: "\<not> has_key body ''error''"
  shows "(\<forall>l r m a b.
            headers response ''x-featureratelimit-limit'' = Some l \<and>
            headers response ''x-featureratelimit-reset'' = Some r \<and>
            headers response ''x-featureratelimit-remaining'' = Some m \<and>
            py_int env l = Some a \<and> py_int env m = Some b \<longrightarrow>
            fst (call_api env method uri params options net) =
              Inr \<lparr>items = body_items body,
                   rate_limit_allowed = a,
                   rate_limit_reset_at = parsedate env r,
                   rate_limit_remaining = b\<rparr>) \<and>
         (headers response ''x-featureratelimit-limit'' = None \<or>
          headers response ''x-featureratelimit-reset'' = None \<or>
          headers response ''x-featureratelimit-remaining'' = None \<longrightarrow>
            isl (fst (call_api env method uri params options net)))"
proof -
  have r: "fst (call_api env method uri params options net) =
           Response_init env (PDict body) response"
    using call_api_sent(1) [OF sent] receive_success_body [OF reply body no_error] by simp
  show ?thesis
    unfolding r using Response_init_ok Response_init_missing by blast
qed

theorem success_wraps_body_and_rate_limits_witness:
  \<open>snd (call_api demo_env ''get'' [PStr ''ping''] [] [] []) = [] @ [demo_request ''ping''] \<and>
   http_request demo_env (demo_request ''ping'') =
     Reply \<lparr>status = 200, data = ''{"status": "ok"}'', headers = demo_headers\<rparr> \<and>
   fst (call_api demo_env ''get'' [PStr ''ping''] [] [] []) =
     Inr \<lparr>items = body_items [(''status'', PStr ''ok'')],
          rate_limit_allowed = 500,
          rate_limit_reset_at = Some [2026, 11, 4, 12, 0, 0, 0, 1, - 1],
          rate_limit_remaining = 499\<rparr> \<and>
   snd (call_api demo_env ''get'' [PStr ''folders''] [] [] []) = [] @ [demo_request ''folders''] \<and>
   http_request demo_env (demo_request ''folders'') =
     Reply \<lparr>status = 200, data = ''{"folders": []}'',
            headers = demo_headers(''x-featureratelimit-remaining'' := None)\<rparr> \<and>
   isl (fst (call_api demo_env ''get'' [PStr ''folders''] [] [] []))\<close>
proof -
  let ?resp = \<open>\<lparr>status = 200, data = ''{"status": "ok"}'', headers = demo_headers\<rparr>\<close>
  let ?resp' = \<open>\<lparr>status = 200, data = ''{"folders": []}'',
            headers = demo_headers(''x-featureratelimit-remaining'' := None)\<rparr>\<close>
  have sent: "snd (call_api demo_env ''get'' [PStr ''ping''] [] [] []) =
     [] @ [demo_request ''ping'']"
    by (simp add: demo_simps run_simps demo_request_def)
  have reply: "http_request demo_env (demo_request ''ping'') = Reply ?resp"
    by (simp add: demo_simps demo_request_def)
  have body: "json_loads demo_env (data ?resp) = Inr (PDict [(''status'', PStr ''ok'')])"
    by (simp add: demo_simps)
  have no_error: "\<not> has_key [(''status'', PStr ''ok'')] ''error''"
    by (simp add: has_key_def)
  have h: "headers ?resp ''x-featureratelimit-limit'' = Some ''500'' \<and>
           headers ?resp ''x-featureratelimit-reset'' = Some ''Wed, 04 Nov 2026 12:00:00 GMT'' \<and>
           headers ?resp ''x-featureratelimit-remaining'' = Some ''499'' \<and>
           py_int demo_env ''500'' = Some 500 \<and> py_int demo_env ''499'' = Some 499"
    by (simp add: demo_simps)
  have p: "parsedate demo_env ''Wed, 04 Nov 2026 12:00:00 GMT'' =
             Some [2026, 11, 4, 12, 0, 0, 0, 1, - 1]"
    by (simp add: demo_simps)
  from success_wraps_body_and_rate_limits[OF sent reply body no_error] h
  have ok: "fst (call_api demo_env ''get'' [PStr ''ping''] [] [] []) =
     Inr \<lparr>items = body_items [(''status'', PStr ''ok'')],
          rate_limit_allowed = 500,
          rate_limit_reset_at = parsedate demo_env ''Wed, 04 Nov 2026 12:00:00 GMT'',
          rate_limit_remaining = 499\<rparr>"
    by blast
  have sent': "snd (call_api demo_env ''get'' [PStr ''folders''] [] [] []) =
     [] @ [demo_request ''folders'']"
    by (simp add: demo_simps run_simps demo_request_def)
  have reply': "http_request demo_env (demo_request ''folders'') = Reply ?resp'"
    by (simp add: demo_simps demo_request_def)
  have body': "json_loads demo_env (data ?resp') = Inr (PDict [(''folders'', PList [])])"
    by (simp add: demo_simps)
  have no_error': "\<not> has_key [(''folders'', PList [])] ''error''"
    by (simp add: has_key_def)
  have h': "headers ?resp' ''x-featureratelimit-remaining'' = None"
    by simp
  from success_wraps_body_and_rate_limits[OF sent' reply' body' no_error'] h'
  have missing: "isl (fst (call_api demo_env ''get'' [PStr ''folders''] [] [] []))"
    by blast
  from sent reply ok p sent' reply' missing show ?thesis by simp
qed

text \<open>
  C4 as stated fails: the service of the examples answers \<^verbatim>\<open>upload_mappings\<close> with a
  body without \<^verbatim>\<open>"error"\<close> and the three headers, the limit being the text
  \<^verbatim>\<open>unlimited\<close>, and line 36 fails with the ValueError of \<^verbatim>\<open>int\<close>. It answers
  \<^verbatim>\<open>streaming_profiles\<close> with the JSON array \<^verbatim>\<open>[1]\<close> and the three headers, and
  line 35 fails with the TypeError of \<^verbatim>\<open>update\<close>.
\<close>

theorem malformed_limit_header_raises:
  \<open>snd (call_api demo_env ''get'' [PStr ''upload_mappings''] [] [] []) =
     [demo_request ''upload_mappings''] \<and>
   http_request demo_env (demo_request ''upload_mappings'') =
     Reply \<lparr>status = 200, data = ''{"status": "ok"}'',
            headers = demo_headers(''x-featureratelimit-limit'' \<mapsto> ''unlimited'')\<rparr> \<and>
   json_loads demo_env ''{"status": "ok"}'' = Inr (PDict [(''status'', PStr ''ok'')]) \<and>
   (demo_headers(''x-featureratelimit-limit'' \<mapsto> ''unlimited'')) ''x-featureratelimit-limit'' =
     Some ''unlimited'' \<and>
   (demo_headers(''x-featureratelimit-limit'' \<mapsto> ''unlimited'')) ''x-featureratelimit-reset'' =
     Some ''Wed, 04 Nov 2026 12:00:00 GMT'' \<and>
   (demo_headers(''x-featureratelimit-limit'' \<mapsto> ''unlimited''))
     ''x-featureratelimit-remaining'' = Some ''499'' \<and>
   fst (call_api demo_env ''get'' [PStr ''upload_mappings''] [] [] []) = Inl ValueError \<and>
   snd (call_api demo_env ''get'' [PStr ''streaming_profiles''] [] [] []) =
     [demo_request ''streaming_profiles''] \<and>
   http_request demo_env (demo_request ''streaming_profiles'') =
     Reply \<lparr>status = 200, data = ''[1]'', headers = demo_headers\<rparr> \<and>
   json_loads demo_env ''[1]'' = Inr (PList [PInt 1]) \<and>
   contains (PList [PInt 1]) ''error'' = Inr False \<and>
   fst (call_api demo_env ''get'' [PStr ''streaming_profiles''] [] [] []) = Inl TypeError\<close>
  by (simp add: demo_simps run_simps demo_request_def)
section \<open>Configuration\<close>

lemma receive_config: "receive (env\<lparr>config := c\<rparr>) req = receive env req"
  by (simp add: receive_def Response_init_def header_int_def
        split: outcome.splits sum.splits option.splits bool.splits)

lemma map_of_without:
  "map_of (dict_del a (dict_del b (dict_del c (dict_del d options)))) k =
     (if k = a \<or> k = b \<or> k = c \<or> k = d then None else map_of options k)"
  by (simp add: map_of_dict_del)

lemma or_default_idem: "or_default (or_default v) = or_default v"
  by (simp add: or_default_def)

lemma truthy_or_default: "truthy (or_default v)"
  by (simp add: or_default_def)

lemma prefix_cases:
  "(case map_of options ''upload_prefix'' of
      Some v \<Rightarrow> if truthy v then v else PStr ''https://api.cloudinary.com''
    | None \<Rightarrow> if truthy c then c else PStr ''https://api.cloudinary.com'') =
   or_default (resolve options ''upload_prefix'' c)"
  by (simp add: or_default_def resolve_def split: option.splits)

text \<open>
  C5, as the code has it. A call behaves as the same call without the four per-call
  settings under a configuration in which each setting is resolved. The cloud name, the
  API key and the API secret are the per-call option when the caller gave one and the
  process-wide value otherwise, and have no default. The upload prefix is the per-call
  option when the caller gave one that is not empty, the process-wide value when the
  caller gave none and that value is not empty, and the built-in default
  \<^verbatim>\<open>https://api.cloudinary.com\<close> in every other case: also when the caller gave an
  empty prefix or \<^verbatim>\<open>None\<close> and a prefix is configured. The URL and the credentials of
  the request that is sent are built from these values.
\<close>

theorem configuration_resolution_order:
  "call_api env method uri params options net =
     call_api
       (env\<lparr>config :=
          \<lparr>cloud_name = resolve options ''cloud_name'' (cloud_name (config env)),
           api_key = resolve options ''api_key'' (api_key (config env)),
           api_secret = resolve options ''api_secret'' (api_secret (config env)),
           upload_prefix =
             (case map_of options ''upload_prefix'' of
                Some v \<Rightarrow> if truthy v then v else PStr ''https://api.cloudinary.com''
              | None \<Rightarrow>
                  if truthy (upload_prefix (config env)) then upload_prefix (config env)
                  else PStr ''https://api.cloudinary.com'')\<rparr>\<rparr>)
       method uri params
       (dict_del ''upload_prefix'' (dict_del ''cloud_name''
          (dict_del ''api_key'' (dict_del ''api_secret'' options)))) net \<and>
   (snd (call_api env method uri params options net) = net @ [req] \<longrightarrow>
      str_join ''/''
        ([(case map_of options ''upload_prefix'' of
             Some v \<Rightarrow> if truthy v then v else PStr ''https://api.cloudinary.com''
           | None \<Rightarrow>
               if truthy (upload_prefix (config env)) then upload_prefix (config env)
               else PStr ''https://api.cloudinary.com''),
          PStr ''v1_1'',
          resolve options ''cloud_name'' (cloud_name (config env))] @ uri) = Inr (req_url req) \<and>
      basic_auth (req_headers req) =
        py_str (py_repr env) (resolve options ''api_key'' (api_key (config env))) @ '':'' @
        py_str (py_repr env) (resolve options ''api_secret'' (api_secret (config env))))"
proof -
  have a: "call_api env method uri params options net =
     call_api
       (env\<lparr>config :=
          \<lparr>cloud_name = resolve options ''cloud_name'' (cloud_name (config env)),
           api_key = resolve options ''api_key'' (api_key (config env)),
           api_secret = resolve options ''api_secret'' (api_secret (config env)),
           upload_prefix =
             or_default (resolve options ''upload_prefix'' (upload_prefix (config env)))\<rparr>\<rparr>)
       method uri params
       (dict_del ''upload_prefix'' (dict_del ''cloud_name''
          (dict_del ''api_key'' (dict_del ''api_secret'' options)))) net"
    by (simp add: call_api_closed Let_def resolve_def map_of_without receive_config
          truthy_or_default or_default_idem
          split: sum.splits)
       (simp add: or_default_def)
  have b: "snd (call_api env method uri params options net) = net @ [req] \<longrightarrow>
      str_join ''/''
        ([or_default (resolve options ''upload_prefix'' (upload_prefix (config env))),
          PStr ''v1_1'',
          resolve options ''cloud_name'' (cloud_name (config env))] @ uri) = Inr (req_url req) \<and>
      basic_auth (req_headers req) =
        py_str (py_repr env) (resolve options ''api_key'' (api_key (config env))) @ '':'' @
        py_str (py_repr env) (resolve options ''api_secret'' (api_secret (config env)))"
    by (auto simp: call_api_closed Let_def resolve_def or_default_def
             split: if_splits sum.splits)
  from a b show ?thesis
    unfolding prefix_cases by (rule conjI)
qed

theorem configuration_resolution_order_witness:
  "snd (call_api eu_env ''get'' [PStr ''ping''] []
          [(''cloud_name'', PStr ''other''), (''upload_prefix'', PStr ''https://us.example.com'')] []) =
     [] @ [(demo_request ''ping'')\<lparr>req_url := ''https://us.example.com/v1_1/other/ping''\<rparr>] \<and>
   snd (call_api eu_env ''get'' [PStr ''ping''] [] [] []) =
     [] @ [(demo_request ''ping'')\<lparr>req_url := ''https://eu.example.com/v1_1/demo/ping''\<rparr>] \<and>
   snd (call_api eu_env ''get'' [PStr ''ping''] [] [(''upload_prefix'', PNone)] []) =
     [] @ [(demo_request ''ping'')\<lparr>req_url := ''https://api.cloudinary.com/v1_1/demo/ping''\<rparr>] \<and>
   str_join ''/'' [PStr ''https://us.example.com'', PStr ''v1_1'', PStr ''other'', PStr ''ping''] =
     Inr ''https://us.example.com/v1_1/other/ping'' \<and>
   str_join ''/'' [PStr ''https://eu.example.com'', PStr ''v1_1'', PStr ''demo'', PStr ''ping''] =
     Inr ''https://eu.example.com/v1_1/demo/ping'' \<and>
   str_join ''/'' [PStr ''https://api.cloudinary.com'', PStr ''v1_1'', PStr ''demo'', PStr ''ping''] =
     Inr ''https://api.cloudinary.com/v1_1/demo/ping'' \<and>
   basic_auth (req_headers ((demo_request ''ping'')\<lparr>req_url := ''https://us.example.com/v1_1/other/ping''\<rparr>)) =
     ''key:secret''"
proof -
  let ?o1 = "[(''cloud_name'', PStr ''other''), (''upload_prefix'', PStr ''https://us.example.com'')]"
  let ?r1 = "(demo_request ''ping'')\<lparr>req_url := ''https://us.example.com/v1_1/other/ping''\<rparr>"
  let ?r2 = "(demo_request ''ping'')\<lparr>req_url := ''https://eu.example.com/v1_1/demo/ping''\<rparr>"
  let ?r3 = "(demo_request ''ping'')\<lparr>req_url := ''https://api.cloudinary.com/v1_1/demo/ping''\<rparr>"
  have s1: "snd (call_api eu_env ''get'' [PStr ''ping''] [] ?o1 []) = [] @ [?r1]"
    by (simp add: eu_env_def demo_simps run_simps demo_request_def)
  have s2: "snd (call_api eu_env ''get'' [PStr ''ping''] [] [] []) = [] @ [?r2]"
    by (simp add: eu_env_def demo_simps run_simps demo_request_def)
  have s3: "snd (call_api eu_env ''get'' [PStr ''ping''] [] [(''upload_prefix'', PNone)] []) =
              [] @ [?r3]"
    by (simp add: eu_env_def demo_simps run_simps demo_request_def)
  from configuration_resolution_order
         [of eu_env "''get''" "[PStr ''ping'']" "[]" ?o1 "[]" ?r1] s1
  have c1: "str_join ''/'' [PStr ''https://us.example.com'', PStr ''v1_1'', PStr ''other'',
                           PStr ''ping''] = Inr (req_url ?r1) \<and>
            basic_auth (req_headers ?r1) = ''key:secret''"
    by (simp add: resolve_def eu_env_def demo_simps)
  from configuration_resolution_order
         [of eu_env "''get''" "[PStr ''ping'']" "[]" "[]" "[]" ?r2] s2
  have c2: "str_join ''/'' [PStr ''https://eu.example.com'', PStr ''v1_1'', PStr ''demo'',
                           PStr ''ping''] = Inr (req_url ?r2)"
    by (simp add: resolve_def eu_env_def demo_simps)
  from configuration_resolution_order
         [of eu_env "''get''" "[PStr ''ping'']" "[]" "[(''upload_prefix'', PNone)]" "[]" ?r3] s3
  have c3: "str_join ''/'' [PStr ''https://api.cloudinary.com'', PStr ''v1_1'', PStr ''demo'',
                           PStr ''ping''] = Inr (req_url ?r3)"
    by (simp add: resolve_def eu_env_def demo_simps)
  from s1 s2 s3 c1 c2 c3 show ?thesis by simp
qed

text \<open>
  C5 as stated fails: with the prefix \<^verbatim>\<open>https://eu.example.com\<close> configured, a call
  that passes \<^verbatim>\<open>upload_prefix=None\<close> or \<^verbatim>\<open>upload_prefix=""\<close> is sent to the built-in
  default, \<^verbatim>\<open>pop(...) or "https://api.cloudinary.com"\<close> of line 298: the process-wide
  value does not take precedence over the default there. Without the option the call goes
  to the configured prefix.
\<close>

theorem falsy_prefix_option_gives_default:
  "upload_prefix (config eu_env) = PStr ''https://eu.example.com'' \<and>
   snd (call_api eu_env ''get'' [PStr ''ping''] [] [(''upload_prefix'', PNone)] []) =
     [demo_request ''ping''] \<and>
   snd (call_api eu_env ''get'' [PStr ''ping''] [] [(''upload_prefix'', PStr '''')] []) =
     [demo_request ''ping''] \<and>
   req_url (demo_request ''ping'') = ''https://api.cloudinary.com/v1_1/demo/ping'' \<and>
   snd (call_api eu_env ''get'' [PStr ''ping''] [] [] []) =
     [(demo_request ''ping'')\<lparr>req_url := ''https://eu.example.com/v1_1/demo/ping''\<rparr>]"
  by (simp add: eu_env_def demo_simps run_simps demo_request_def)

text \<open>
  C1 on the code. With a cloud name and an API key configured and no API secret anywhere,
  \<^verbatim>\<open>call_api\<close> raises nothing: line 304 tests \<^verbatim>\<open>cloud_name\<close> a second time where it
  means \<^verbatim>\<open>api_secret\<close>, the request goes out with the credentials \<^verbatim>\<open>key:None\<close>, and
  the call returns the response.
\<close>

theorem missing_api_secret_is_not_checked:
  "snd (call_api (demo_env\<lparr>config := demo_config\<lparr>api_secret := PNone\<rparr>\<rparr>)
          ''get'' [PStr ''ping''] [] [] []) =
     [(demo_request ''ping'')
        \<lparr>req_headers := \<lparr>basic_auth = ''key:None'', user_agent = ''CloudinaryPython/1.0''\<rparr>\<rparr>] \<and>
   \<not> isl (fst (call_api (demo_env\<lparr>config := demo_config\<lparr>api_secret := PNone\<rparr>\<rparr>)
          ''get'' [PStr ''ping''] [] [] []))"
  by (simp add: demo_simps run_simps demo_request_def)

section \<open>Transport failures\<close>

lemma receive_socket_error:
  "http_request env req = SocketError e \<Longrightarrow>
   receive env req = Inl (Raised GeneralError [''Socket Error: '' @ e])"
  by (simp add: receive_def)

text \<open>
  C9 on the code. For an \<^verbatim>\<open>HTTPError\<close> line 319 passes the template and the cause as
  two arguments and never formats the template: the message text stays
  \<^verbatim>\<open>Unexpected error {0}\<close>. Where the error has no \<^verbatim>\<open>message\<close> attribute the handler
  itself fails with an AttributeError.
\<close>

theorem http_error_message_is_not_formatted:
  "fst (call_api demo_env ''get'' [PStr ''transformations''] [] [] []) =
     Inl (Raised GeneralError [''Unexpected error {0}'', ''Read timed out.'']) \<and>
   fst (call_api (demo_env\<lparr>http_request := (\<lambda>req. HTTPError None)\<rparr>)
          ''get'' [PStr ''transformations''] [] [] []) = Inl AttributeError"
  by (simp add: demo_simps run_simps)


section \<open>The parameters the operations transmit\<close>

lemma has_key_update_params:
  "update_params env options = Inr params \<Longrightarrow> has_key params k \<Longrightarrow>
   k \<in> set (whitelist (Update x)) \<or> k \<in> set (forwarded (Update x))"
  by (auto simp: update_params_def Let_def has_key_only split: sum.splits
           dest!: has_key_forward)

lemma has_key_streaming_params:
  "prepare_streaming_profile_params env options = Inr params \<Longrightarrow> has_key params k \<Longrightarrow>
   k = ''display_name'' \<or> k = ''representations''"
  by (auto simp: prepare_streaming_profile_params_def Let_def has_key_only
           dest!: has_key_forward)

lemma has_key_pairs_result:
  "pairs name xs = Inr params \<Longrightarrow> has_key params k \<Longrightarrow> k = name"
  by (auto simp: pairs_def split: sum.splits dest: has_key_pairs)

lemmas op_defs =
  ping_def usage_def resource_types_def resources_def resources_by_tag_def
  resources_by_moderation_def resources_by_ids_def resource_def update_def
  delete_resources_def delete_resources_by_prefix_def delete_all_resources_def
  delete_resources_by_tag_def delete_derived_resources_def tags_def transformations_def
  transformation_def delete_transformation_def update_transformation_def
  create_transformation_def upload_presets_def upload_preset_def delete_upload_preset_def
  update_upload_preset_def create_upload_preset_def root_folders_def subfolders_def
  restore_def upload_mappings_def upload_mapping_def delete_upload_mapping_def
  update_upload_mapping_def create_upload_mapping_def list_streaming_profiles_def
  get_streaming_profile_def delete_streaming_profile_def create_streaming_profile_def
  update_streaming_profile_def

lemmas op_simps = dict_pop_def only_def pairs_def forward_def

text \<open>
  C6, as the code has it. Whatever operation is called, with whatever options: a key that
  is neither selected with \<^verbatim>\<open>only\<close>, nor forwarded explicitly, nor set by the operation
  itself from a positional argument or a constant, nor produced by the external builder
  of the preset operations, is no key of the parameters of the request that is sent.
\<close>

theorem unknown_options_are_not_transmitted:
  assumes sent: "snd (run env op options net) = net @ [req]"
    and unknown: "k \<notin> set (allowed env op options)"
  shows "\<not> has_key (req_fields req) k"
proof
  assume k: "has_key (req_fields req) k"
  from sent unknown k show False
    by (cases op)
       (auto simp: run_def allowed_def op_defs Let_def case_prod_beta has_key_only has_key_dict_set
                   has_key_dict_update has_key_append has_key_Nil has_key_Cons
                   has_key_keys [symmetric]
             split: sum.splits if_splits
             dest!: kwargs_fields
             dest: has_key_update_params has_key_streaming_params has_key_pairs_result
                   has_key_forward)
qed

theorem unknown_options_are_not_transmitted_witness:
  "snd (run demo_env Resources [(''max_results'', PInt 10), (''bogus'', PStr ''x'')] []) =
     [] @ [(demo_request ''resources/image'')\<lparr>req_fields := [(''max_results'', PInt 10)]\<rparr>] \<and>
   ''bogus'' \<notin> set (allowed demo_env Resources [(''max_results'', PInt 10), (''bogus'', PStr ''x'')]) \<and>
   \<not> has_key (req_fields ((demo_request ''resources/image'')\<lparr>req_fields := [(''max_results'', PInt 10)]\<rparr>)) ''bogus''"
proof -
  have sent: "snd (run demo_env Resources [(''max_results'', PInt 10), (''bogus'', PStr ''x'')] []) =
     [] @ [(demo_request ''resources/image'')\<lparr>req_fields := [(''max_results'', PInt 10)]\<rparr>]"
    by (simp add: run_def demo_simps run_simps demo_request_def resources_def op_simps)
  have unknown: "''bogus'' \<notin> set (allowed demo_env Resources [(''max_results'', PInt 10), (''bogus'', PStr ''x'')])"
    by (simp add: allowed_def)
  from unknown_options_are_not_transmitted [OF sent unknown] sent unknown show ?thesis
    by simp
qed

text \<open>
  C6 as stated fails: \<^verbatim>\<open>upload_mapping("a", folder="b")\<close> transmits the key
  \<^verbatim>\<open>folder\<close>, which the operation sets from its positional argument and which is in no
  whitelist; \<^verbatim>\<open>update("sample", tags=["a", "b"])\<close> transmits the key \<^verbatim>\<open>tags\<close>, which
  is not among the keys the operation hands to \<^verbatim>\<open>only\<close> and is forwarded by line 102.
\<close>

theorem fixed_and_forwarded_keys_are_transmitted:
  "''folder'' \<notin> set (whitelist (Upload_mapping (PStr ''a''))) \<and>
   snd (run demo_env (Upload_mapping (PStr ''a'')) [(''folder'', PStr ''b'')] []) =
     [(demo_request ''upload_mappings'')\<lparr>req_fields := [(''folder'', PStr ''a'')]\<rparr>] \<and>
   has_key [(''folder'', PStr ''a'')] ''folder'' \<and>
   ''tags'' \<notin> set (whitelist (Update (PStr ''sample''))) \<and>
   snd (run demo_env (Update (PStr ''sample'')) [(''tags'', PList [PStr ''a'', PStr ''b''])] []) =
     [(demo_request ''resources/image/upload/sample'')
        \<lparr>req_method := ''POST'', req_fields := [(''tags'', PStr ''a,b'')]\<rparr>] \<and>
   has_key [(''tags'', PStr ''a,b'')] ''tags''"
  by (simp add: run_def demo_simps run_simps demo_request_def upload_mapping_def update_def
        update_params_def join_tags_def op_simps)

lemma filter_pairs: "filter (\<lambda>(k, v). k = name) (map (Pair name) ys) = map (Pair name) ys"
  by (induction ys) auto

lemma filter_only: "name \<notin> set keys \<Longrightarrow> filter (\<lambda>(k, v). k = name) (only source keys) = []"
proof -
  assume "name \<notin> set keys"
  then have "\<not> has_key (only source keys) name" by (simp add: has_key_only)
  then have "name \<notin> fst ` set (only source keys)" by (simp add: has_key_keys)
  then have "\<forall>x\<in>set (only source keys). fst x \<noteq> name" by force
  then show ?thesis by (auto simp: filter_empty_conv)
qed

text \<open>
  C7. Called with a list of identifiers, \<^verbatim>\<open>resources_by_ids\<close>, \<^verbatim>\<open>delete_resources\<close> and
  \<^verbatim>\<open>restore\<close> hand \<^verbatim>\<open>call_api\<close> one pair \<^verbatim>\<open>("public_ids[]", x)\<close> for each element
  \<open>x\<close>, in the order of the list (the first two followed by their whitelisted options,
  none of which has that key), and \<^verbatim>\<open>delete_derived_resources\<close> likewise one pair
  \<^verbatim>\<open>("derived_resource_ids[]", x)\<close>; these are the parameters of the request that is
  sent.
\<close>

theorem list_identifiers_are_repeated_in_order:
  "resources_by_ids env (PList ids) options net =
     call_api_kwargs env ''get''
       [PStr ''resources'',
        fst (dict_pop options ''resource_type'' (PStr ''image'')),
        fst (dict_pop (snd (dict_pop options ''resource_type'' (PStr ''image'')))
               ''type'' (PStr ''upload''))]
       (map (Pair ''public_ids[]'') ids @
        only (snd (dict_pop (snd (dict_pop options ''resource_type'' (PStr ''image'')))
                     ''type'' (PStr ''upload'')))
          [''tags'', ''moderations'', ''context''])
       (snd (dict_pop (snd (dict_pop options ''resource_type'' (PStr ''image'')))
               ''type'' (PStr ''upload''))) net \<and>
   delete_resources env (PList ids) options net =
     call_api_kwargs env ''delete''
       [PStr ''resources'',
        fst (dict_pop options ''resource_type'' (PStr ''image'')),
        fst (dict_pop (snd (dict_pop options ''resource_type'' (PStr ''image'')))
               ''type'' (PStr ''upload''))]
       (map (Pair ''public_ids[]'') ids @
        only (snd (dict_pop (snd (dict_pop options ''resource_type'' (PStr ''image'')))
                     ''type'' (PStr ''upload'')))
          [''keep_original'', ''next_cursor'', ''invalidate''])
       (snd (dict_pop (snd (dict_pop options ''resource_type'' (PStr ''image'')))
               ''type'' (PStr ''upload''))) net \<and>
   restore env (PList ids) options net =
     call_api_kwargs env ''post''
       [PStr ''resources'',
        fst (dict_pop options ''resource_type'' (PStr ''image'')),
        fst (dict_pop (snd (dict_pop options ''resource_type'' (PStr ''image'')))
               ''type'' (PStr ''upload'')),
        PStr ''restore'']
       (map (Pair ''public_ids[]'') ids)
       (snd (dict_pop (snd (dict_pop options ''resource_type'' (PStr ''image'')))
               ''type'' (PStr ''upload''))) net \<and>
   delete_derived_resources env (PList ids) options net =
     call_api_kwargs env ''delete'' [PStr ''derived_resources'']
       (map (Pair ''derived_resource_ids[]'') ids) options net \<and>
   filter (\<lambda>(k, v). k = ''public_ids[]'')
     (map (Pair ''public_ids[]'') ids @ only source [''tags'', ''moderations'', ''context'']) =
     map (Pair ''public_ids[]'') ids \<and>
   filter (\<lambda>(k, v). k = ''public_ids[]'')
     (map (Pair ''public_ids[]'') ids @
      only source [''keep_original'', ''next_cursor'', ''invalidate'']) =
     map (Pair ''public_ids[]'') ids \<and>
   (snd (resources_by_ids env (PList ids) options net) = net @ [req] \<longrightarrow>
      filter (\<lambda>(k, v). k = ''public_ids[]'') (req_fields req) = map (Pair ''public_ids[]'') ids) \<and>
   (snd (delete_resources env (PList ids) options net) = net @ [req] \<longrightarrow>
      filter (\<lambda>(k, v). k = ''public_ids[]'') (req_fields req) = map (Pair ''public_ids[]'') ids) \<and>
   (snd (restore env (PList ids) options net) = net @ [req] \<longrightarrow>
      req_fields req = map (Pair ''public_ids[]'') ids) \<and>
   (snd (delete_derived_resources env (PList ids) options net) = net @ [req] \<longrightarrow>
      req_fields req = map (Pair ''derived_resource_ids[]'') ids)"
proof -
  have eqs:
    "resources_by_ids env (PList ids) options net =
     call_api_kwargs env ''get''
       [PStr ''resources'',
        fst (dict_pop options ''resource_type'' (PStr ''image'')),
        fst (dict_pop (snd (dict_pop options ''resource_type'' (PStr ''image'')))
               ''type'' (PStr ''upload''))]
       (map (Pair ''public_ids[]'') ids @
        only (snd (dict_pop (snd (dict_pop options ''resource_type'' (PStr ''image'')))
                     ''type'' (PStr ''upload'')))
          [''tags'', ''moderations'', ''context''])
       (snd (dict_pop (snd (dict_pop options ''resource_type'' (PStr ''image'')))
               ''type'' (PStr ''upload''))) net"
    "delete_resources env (PList ids) options net =
     call_api_kwargs env ''delete''
       [PStr ''resources'',
        fst (dict_pop options ''resource_type'' (PStr ''image'')),
        fst (dict_pop (snd (dict_pop options ''resource_type'' (PStr ''image'')))
               ''type'' (PStr ''upload''))]
       (map (Pair ''public_ids[]'') ids @
        only (snd (dict_pop (snd (dict_pop options ''resource_type'' (PStr ''image'')))
                     ''type'' (PStr ''upload'')))
          [''keep_original'', ''next_cursor'', ''invalidate''])
       (snd (dict_pop (snd (dict_pop options ''resource_type'' (PStr ''image'')))
               ''type'' (PStr ''upload''))) net"
    "restore env (PList ids) options net =
     call_api_kwargs env ''post''
       [PStr ''resources'',
        fst (dict_pop options ''resource_type'' (PStr ''image'')),
        fst (dict_pop (snd (dict_pop options ''resource_type'' (PStr ''image'')))
               ''type'' (PStr ''upload'')),
        PStr ''restore'']
       (map (Pair ''public_ids[]'') ids)
       (snd (dict_pop (snd (dict_pop options ''resource_type'' (PStr ''image'')))
               ''type'' (PStr ''upload''))) net"
    "delete_derived_resources env (PList ids) options net =
     call_api_kwargs env ''delete'' [PStr ''derived_resources'']
       (map (Pair ''derived_resource_ids[]'') ids) options net"
    by (simp_all add: resources_by_ids_def delete_resources_def restore_def
          delete_derived_resources_def Let_def case_prod_beta pairs_def)
  have flt:
    "filter (\<lambda>(k, v). k = ''public_ids[]'')
       (map (Pair ''public_ids[]'') ids @ only source [''tags'', ''moderations'', ''context'']) =
     map (Pair ''public_ids[]'') ids"
    "filter (\<lambda>(k, v). k = ''public_ids[]'')
       (map (Pair ''public_ids[]'') ids @
        only source [''keep_original'', ''next_cursor'', ''invalidate'']) =
     map (Pair ''public_ids[]'') ids"
    by (simp_all add: filter_pairs filter_only)
  have cond:
    "snd (resources_by_ids env (PList ids) options net) = net @ [req] \<longrightarrow>
      filter (\<lambda>(k, v). k = ''public_ids[]'') (req_fields req) = map (Pair ''public_ids[]'') ids"
    "snd (delete_resources env (PList ids) options net) = net @ [req] \<longrightarrow>
      filter (\<lambda>(k, v). k = ''public_ids[]'') (req_fields req) = map (Pair ''public_ids[]'') ids"
    "snd (restore env (PList ids) options net) = net @ [req] \<longrightarrow>
      req_fields req = map (Pair ''public_ids[]'') ids"
    "snd (delete_derived_resources env (PList ids) options net) = net @ [req] \<longrightarrow>
      req_fields req = map (Pair ''derived_resource_ids[]'') ids"
    by (auto simp: resources_by_ids_def delete_resources_def restore_def
          delete_derived_resources_def Let_def case_prod_beta pairs_def filter_pairs filter_only
        dest!: kwargs_fields)
  from eqs flt cond show ?thesis by (intro conjI)
qed

theorem list_identifiers_are_repeated_in_order_witness:
  "resources_by_ids demo_env (PList [PStr ''a'', PStr ''b'']) [(''tags'', PBool True)] [] =
     (Inl (Raised GeneralError [''Socket Error: [Errno 111] Connection refused'']),
      [] @ [(demo_request ''resources/image/upload'')
              \<lparr>req_fields := [(''public_ids[]'', PStr ''a''), (''public_ids[]'', PStr ''b''),
                              (''tags'', PBool True)]\<rparr>]) \<and>
   delete_resources demo_env (PList [PStr ''a'', PStr ''b'']) [(''invalidate'', PBool True)] [] =
     (Inl (Raised GeneralError [''Socket Error: [Errno 111] Connection refused'']),
      [] @ [(demo_request ''resources/image/upload'')
              \<lparr>req_method := ''DELETE'',
               req_fields := [(''public_ids[]'', PStr ''a''), (''public_ids[]'', PStr ''b''),
                              (''invalidate'', PBool True)]\<rparr>]) \<and>
   restore demo_env (PList [PStr ''a'', PStr ''b'']) [] [] =
     (Inl (Raised GeneralError [''Socket Error: [Errno 111] Connection refused'']),
      [] @ [(demo_request ''resources/image/upload/restore'')
              \<lparr>req_method := ''POST'',
               req_fields := [(''public_ids[]'', PStr ''a''), (''public_ids[]'', PStr ''b'')]\<rparr>]) \<and>
   delete_derived_resources demo_env (PList [PStr ''a'', PStr ''b'']) [] [] =
     (Inl (Raised GeneralError [''Socket Error: [Errno 111] Connection refused'']),
      [] @ [(demo_request ''derived_resources'')
              \<lparr>req_method := ''DELETE'',
               req_fields := [(''derived_resource_ids[]'', PStr ''a''),
                              (''derived_resource_ids[]'', PStr ''b'')]\<rparr>]) \<and>
   filter (\<lambda>(k, v). k = ''public_ids[]'')
     [(''public_ids[]'', PStr ''a''), (''public_ids[]'', PStr ''b''), (''tags'', PBool True)] =
     [(''public_ids[]'', PStr ''a''), (''public_ids[]'', PStr ''b'')] \<and>
   filter (\<lambda>(k, v). k = ''public_ids[]'')
     [(''public_ids[]'', PStr ''a''), (''public_ids[]'', PStr ''b''), (''invalidate'', PBool True)] =
     [(''public_ids[]'', PStr ''a''), (''public_ids[]'', PStr ''b'')]"
proof -
  let ?ids = "[PStr ''a'', PStr ''b'']"
  let ?r1 = "(demo_request ''resources/image/upload'')
             \<lparr>req_fields := [(''public_ids[]'', PStr ''a''), (''public_ids[]'', PStr ''b''),
                             (''tags'', PBool True)]\<rparr>"
  let ?r2 = "(demo_request ''resources/image/upload'')
             \<lparr>req_method := ''DELETE'',
              req_fields := [(''public_ids[]'', PStr ''a''), (''public_ids[]'', PStr ''b''),
                             (''invalidate'', PBool True)]\<rparr>"
  let ?r3 = "(demo_request ''resources/image/upload/restore'')
             \<lparr>req_method := ''POST'',
              req_fields := [(''public_ids[]'', PStr ''a''), (''public_ids[]'', PStr ''b'')]\<rparr>"
  let ?r4 = "(demo_request ''derived_resources'')
             \<lparr>req_method := ''DELETE'',
              req_fields := [(''derived_resource_ids[]'', PStr ''a''),
                             (''derived_resource_ids[]'', PStr ''b'')]\<rparr>"
  let ?refused = "Inl (Raised GeneralError [''Socket Error: [Errno 111] Connection refused''])
                    :: exc + Response"
  note t1 = list_identifiers_are_repeated_in_order
              [of demo_env ?ids "[(''tags'', PBool True)]" "[]" "[(''tags'', PBool True)]" ?r1]
  note t2 = list_identifiers_are_repeated_in_order
              [of demo_env ?ids "[(''invalidate'', PBool True)]" "[]"
                  "[(''invalidate'', PBool True)]" ?r2]
  note t3 = list_identifiers_are_repeated_in_order [of demo_env ?ids "[]" "[]" "[]" ?r3]
  note t4 = list_identifiers_are_repeated_in_order [of demo_env ?ids "[]" "[]" "[]" ?r4]
  have k1: "call_api_kwargs demo_env ''get''
              [PStr ''resources'', PStr ''image'', PStr ''upload'']
              [(''public_ids[]'', PStr ''a''), (''public_ids[]'', PStr ''b''),
               (''tags'', PBool True)] [(''tags'', PBool True)] [] = (?refused, [] @ [?r1])"
    by (simp add: demo_simps run_simps demo_request_def)
  have k2: "call_api_kwargs demo_env ''delete''
              [PStr ''resources'', PStr ''image'', PStr ''upload'']
              [(''public_ids[]'', PStr ''a''), (''public_ids[]'', PStr ''b''),
               (''invalidate'', PBool True)] [(''invalidate'', PBool True)] [] =
            (?refused, [] @ [?r2])"
    by (simp add: demo_simps run_simps demo_request_def)
  have k3: "call_api_kwargs demo_env ''post''
              [PStr ''resources'', PStr ''image'', PStr ''upload'', PStr ''restore'']
              [(''public_ids[]'', PStr ''a''), (''public_ids[]'', PStr ''b'')] [] [] =
            (?refused, [] @ [?r3])"
    by (simp add: demo_simps run_simps demo_request_def)
  have k4: "call_api_kwargs demo_env ''delete'' [PStr ''derived_resources'']
              [(''derived_resource_ids[]'', PStr ''a''), (''derived_resource_ids[]'', PStr ''b'')]
              [] [] = (?refused, [] @ [?r4])"
    by (simp add: demo_simps run_simps demo_request_def)
  have e1: "resources_by_ids demo_env (PList ?ids) [(''tags'', PBool True)] [] =
              (?refused, [] @ [?r1])"
    using t1 k1 by (simp add: op_simps)
  have e2: "delete_resources demo_env (PList ?ids) [(''invalidate'', PBool True)] [] =
              (?refused, [] @ [?r2])"
    using t2 k2 by (simp add: op_simps)
  have e3: "restore demo_env (PList ?ids) [] [] = (?refused, [] @ [?r3])"
    using t3 k3 by (simp add: op_simps)
  have e4: "delete_derived_resources demo_env (PList ?ids) [] [] = (?refused, [] @ [?r4])"
    using t4 k4 by (simp add: op_simps)
  have f1: "filter (\<lambda>(k, v). k = ''public_ids[]'') (req_fields ?r1) =
              map (Pair ''public_ids[]'') ?ids"
    using t1 e1 by simp
  have f2: "filter (\<lambda>(k, v). k = ''public_ids[]'') (req_fields ?r2) =
              map (Pair ''public_ids[]'') ?ids"
    using t2 e2 by simp
  from e1 e2 e3 e4 f1 f2 show ?thesis by simp
qed

section \<open>Transformations\<close>

lemma only_absent: "\<not> has_key source k \<Longrightarrow> only source [k] = []"
  by (simp add: only_def has_key_def)

text \<open>
  C8. When the options hold neither \<^verbatim>\<open>allowed_for_strict\<close> nor \<^verbatim>\<open>unsafe_update\<close>,
  \<^verbatim>\<open>update_transformation\<close> raises and sends no request; the error is
  \<^verbatim>\<open>Exception("No updates given")\<close> whenever the transformation argument itself is
  accepted.
\<close>

theorem update_transformation_without_updates:
  assumes "\<not> has_key options ''allowed_for_strict''" and "\<not> has_key options ''unsafe_update''"
  shows "snd (update_transformation env t options net) = net \<and>
         isl (fst (update_transformation env t options net)) \<and>
         (\<forall>ts. transformation_string env t = Inr ts \<longrightarrow>
            fst (update_transformation env t options net) =
              Inl (Raised Exception [''No updates given'']))"
  using assms
  by (auto simp: update_transformation_def Let_def only_absent forward_def has_key_def
           split: sum.splits)

theorem update_transformation_without_updates_witness:
  "\<not> has_key [(''timeout'', PInt 5)] ''allowed_for_strict'' \<and>
   \<not> has_key [(''timeout'', PInt 5)] ''unsafe_update'' \<and>
   update_transformation demo_env (PStr ''w_100'') [(''timeout'', PInt 5)] [] =
     (Inl (Raised Exception [''No updates given'']), [])"
proof -
  have a: "\<not> has_key [(''timeout'', PInt 5)] ''allowed_for_strict''"
    by (simp add: has_key_def)
  have b: "\<not> has_key [(''timeout'', PInt 5)] ''unsafe_update''"
    by (simp add: has_key_def)
  have t: "transformation_string demo_env (PStr ''w_100'') = Inr (PStr ''w_100'')"
    by simp
  from update_transformation_without_updates [OF a b, of demo_env "PStr ''w_100''" "[]"] t a b show ?thesis
    by (simp add: prod_eq_iff)
qed

lemma transformation_url:
  "str_join ''/'' [a, PStr b, c, PStr ''transformations'', PStr s] = Inr u \<Longrightarrow>
   \<exists>p. u = p @ ''/transformations/'' @ s"
  by (cases a; cases c) auto

lemma call_api_transformation_url:
  assumes "snd (call_api_kwargs env method [PStr ''transformations'', PStr s] params options net) = net @ [req]"
  shows "\<exists>p. req_url req = p @ ''/transformations/'' @ s"
proof -
  from assms have "snd (call_api env method [PStr ''transformations'', PStr s] params options net) = net @ [req]"
    by (rule call_api_kwargs_sent(1))
  from call_api_url [OF this]
  have "\<exists>a c. str_join ''/'' ([a, PStr ''v1_1'', c] @ [PStr ''transformations'', PStr s]) = Inr (req_url req)"
    by blast
  then obtain a c where "str_join ''/'' [a, PStr ''v1_1'', c, PStr ''transformations'', PStr s] = Inr (req_url req)"
    by auto
  then show ?thesis by (rule transformation_url)
qed

text \<open>
  C10. \<^verbatim>\<open>transformation_string\<close> gives a string back unchanged and calls the generator
  for a dictionary only. With a string argument, \<^verbatim>\<open>transformation\<close> and
  \<^verbatim>\<open>delete_transformation\<close> call \<^verbatim>\<open>call_api\<close> with the string as the second segment of
  the URI, and so does \<^verbatim>\<open>update_transformation\<close> whenever it has updates to send; the
  URL of the request that is sent ends with \<^verbatim>\<open>/transformations/\<close> and the string.
\<close>

theorem raw_transformation_string_is_verbatim:
  "transformation_string env (PStr s) = Inr (PStr s) \<and>
   transformation_string env (PDict d) = generate_transformation_string env d \<and>
   transformation env (PStr s) options net =
     call_api_kwargs env ''get'' [PStr ''transformations'', PStr s]
       (only options [''next_cursor'', ''max_results'']) options net \<and>
   delete_transformation env (PStr s) options net =
     call_api_kwargs env ''delete'' [PStr ''transformations'', PStr s] [] options net \<and>
   update_transformation env (PStr s) options net =
     (case forward options ''unsafe_update'' (transformation_string env)
             (only options [''allowed_for_strict'']) of
        Inl e \<Rightarrow> (Inl e, net)
      | Inr updates \<Rightarrow>
          if updates = [] then (Inl (Raised Exception [''No updates given'']), net)
          else call_api_kwargs env ''put'' [PStr ''transformations'', PStr s] updates
                 options net) \<and>
   (has_key options ''allowed_for_strict'' \<and> \<not> has_key options ''unsafe_update'' \<longrightarrow>
      update_transformation env (PStr s) options net =
        call_api_kwargs env ''put'' [PStr ''transformations'', PStr s]
          (only options [''allowed_for_strict'']) options net) \<and>
   (snd (transformation env (PStr s) options net) = net @ [req] \<longrightarrow>
      (\<exists>p. req_url req = p @ ''/transformations/'' @ s)) \<and>
   (snd (delete_transformation env (PStr s) options net) = net @ [req] \<longrightarrow>
      (\<exists>p. req_url req = p @ ''/transformations/'' @ s)) \<and>
   (snd (update_transformation env (PStr s) options net) = net @ [req] \<longrightarrow>
      (\<exists>p. req_url req = p @ ''/transformations/'' @ s))"
proof -
  have t: "transformation env (PStr s) options net =
     call_api_kwargs env ''get'' [PStr ''transformations'', PStr s]
       (only options [''next_cursor'', ''max_results'']) options net"
    by (simp add: transformation_def)
  have d: "delete_transformation env (PStr s) options net =
     call_api_kwargs env ''delete'' [PStr ''transformations'', PStr s] [] options net"
    by (simp add: delete_transformation_def)
  have u: "update_transformation env (PStr s) options net =
     (case forward options ''unsafe_update'' (transformation_string env)
             (only options [''allowed_for_strict'']) of
        Inl e \<Rightarrow> (Inl e, net)
      | Inr updates \<Rightarrow>
          if updates = [] then (Inl (Raised Exception [''No updates given'']), net)
          else call_api_kwargs env ''put'' [PStr ''transformations'', PStr s] updates
                 options net)"
    by (simp add: update_transformation_def Let_def split: sum.splits)
  have a: "has_key options ''allowed_for_strict'' \<and> \<not> has_key options ''unsafe_update'' \<longrightarrow>
      update_transformation env (PStr s) options net =
        call_api_kwargs env ''put'' [PStr ''transformations'', PStr s]
          (only options [''allowed_for_strict'']) options net"
  proof
    assume h: "has_key options ''allowed_for_strict'' \<and> \<not> has_key options ''unsafe_update''"
    then have "has_key (only options [''allowed_for_strict'']) ''allowed_for_strict''"
      by (simp add: has_key_only)
    then have "only options [''allowed_for_strict''] \<noteq> []"
      by (auto simp: has_key_def)
    with h show "update_transformation env (PStr s) options net =
        call_api_kwargs env ''put'' [PStr ''transformations'', PStr s]
          (only options [''allowed_for_strict'']) options net"
      by (simp add: u forward_def has_key_def)
  qed
  have ut: "snd (transformation env (PStr s) options net) = net @ [req] \<longrightarrow>
      (\<exists>p. req_url req = p @ ''/transformations/'' @ s)"
    unfolding t by (auto dest: call_api_transformation_url)
  have ud: "snd (delete_transformation env (PStr s) options net) = net @ [req] \<longrightarrow>
      (\<exists>p. req_url req = p @ ''/transformations/'' @ s)"
    unfolding d by (auto dest: call_api_transformation_url)
  have uu: "snd (update_transformation env (PStr s) options net) = net @ [req] \<longrightarrow>
      (\<exists>p. req_url req = p @ ''/transformations/'' @ s)"
    unfolding u by (auto split: sum.splits if_splits dest: call_api_transformation_url)
  have s1: "transformation_string env (PStr s) = Inr (PStr s)" by simp
  have s2: "transformation_string env (PDict d) = generate_transformation_string env d" by simp
  from s1 s2 t d u a ut ud uu show ?thesis by (intro conjI)
qed

theorem raw_transformation_string_is_verbatim_witness:
  "transformation demo_env (PStr ''w_100,h_50'') [] [] =
     (Inl (Raised GeneralError [''Socket Error: [Errno 111] Connection refused'']),
      [] @ [demo_request ''transformations/w_100,h_50'']) \<and>
   delete_transformation demo_env (PStr ''w_100,h_50'') [] [] =
     (Inl (Raised GeneralError [''Socket Error: [Errno 111] Connection refused'']),
      [] @ [(demo_request ''transformations/w_100,h_50'')\<lparr>req_method := ''DELETE''\<rparr>]) \<and>
   has_key [(''allowed_for_strict'', PBool True)] ''allowed_for_strict'' \<and>
   \<not> has_key [(''allowed_for_strict'', PBool True)] ''unsafe_update'' \<and>
   update_transformation demo_env (PStr ''w_100,h_50'') [(''allowed_for_strict'', PBool True)] [] =
     (Inl (Raised GeneralError [''Socket Error: [Errno 111] Connection refused'']),
      [] @ [(demo_request ''transformations/w_100,h_50'')
              \<lparr>req_method := ''PUT'',
               req_fields := [(''allowed_for_strict'', PBool True)]\<rparr>]) \<and>
   req_url (demo_request ''transformations/w_100,h_50'') =
     ''https://api.cloudinary.com/v1_1/demo'' @ ''/transformations/'' @ ''w_100,h_50'' \<and>
   (\<exists>p. req_url ((demo_request ''transformations/w_100,h_50'')
                   \<lparr>req_method := ''PUT'',
                    req_fields := [(''allowed_for_strict'', PBool True)]\<rparr>) =
          p @ ''/transformations/'' @ ''w_100,h_50'')"
proof -
  let ?s = "''w_100,h_50''"
  let ?o = "[(''allowed_for_strict'', PBool True)]"
  let ?r = "demo_request ''transformations/w_100,h_50''"
  let ?rd = "(demo_request ''transformations/w_100,h_50'')\<lparr>req_method := ''DELETE''\<rparr>"
  let ?ru = "(demo_request ''transformations/w_100,h_50'')
              \<lparr>req_method := ''PUT'', req_fields := [(''allowed_for_strict'', PBool True)]\<rparr>"
  let ?refused = "Inl (Raised GeneralError [''Socket Error: [Errno 111] Connection refused''])
                    :: exc + Response"
  note t0 = raw_transformation_string_is_verbatim [of demo_env ?s "[]" "[]" "[]" ?r]
  note tu = raw_transformation_string_is_verbatim [of demo_env ?s "[]" ?o "[]" ?ru]
  have k1: "call_api_kwargs demo_env ''get'' [PStr ''transformations'', PStr ?s]
              (only [] [''next_cursor'', ''max_results'']) [] [] = (?refused, [] @ [?r])"
    by (simp add: demo_simps run_simps demo_request_def op_simps)
  have k2: "call_api_kwargs demo_env ''delete'' [PStr ''transformations'', PStr ?s] [] [] [] =
              (?refused, [] @ [?rd])"
    by (simp add: demo_simps run_simps demo_request_def)
  have k3: "call_api_kwargs demo_env ''put'' [PStr ''transformations'', PStr ?s]
              (only ?o [''allowed_for_strict'']) ?o [] = (?refused, [] @ [?ru])"
    by (simp add: demo_simps run_simps demo_request_def op_simps)
  have h: "has_key ?o ''allowed_for_strict'' \<and> \<not> has_key ?o ''unsafe_update''"
    by (simp add: has_key_def)
  have e1: "transformation demo_env (PStr ?s) [] [] = (?refused, [] @ [?r])"
    using t0 k1 by simp
  have e2: "delete_transformation demo_env (PStr ?s) [] [] = (?refused, [] @ [?rd])"
    using t0 k2 by simp
  from tu h have "update_transformation demo_env (PStr ?s) ?o [] =
        call_api_kwargs demo_env ''put'' [PStr ''transformations'', PStr ?s]
          (only ?o [''allowed_for_strict'']) ?o []"
    by blast
  with k3 have e3: "update_transformation demo_env (PStr ?s) ?o [] = (?refused, [] @ [?ru])"
    by simp
  from e3 have "snd (update_transformation demo_env (PStr ?s) ?o []) = [] @ [?ru]"
    by simp
  with tu have u3: "\<exists>p. req_url ?ru = p @ ''/transformations/'' @ ?s"
    by blast
  have url: "req_url ?r = ''https://api.cloudinary.com/v1_1/demo'' @ ''/transformations/'' @ ?s"
    by (simp add: demo_request_def)
  from e1 e2 e3 h u3 url show ?thesis by simp
qed

end
